theory Spec2Isabelle
  imports Main "HOL-Library.Char_ord"
begin

section \<open>Source deduction for import paths (remote.go)\<close>

text \<open>
  A shallow embedding of \<^verbatim>\<open>remote.go\<close> of package \<^verbatim>\<open>gps\<close>: the regular patterns
  of the hosting conventions, the matchers with their \<^verbatim>\<open>deduceRoot\<close> and
  \<^verbatim>\<open>deduceSource\<close> methods, \<^verbatim>\<open>normalizeURI\<close>, the metadata lookup and
  \<^verbatim>\<open>deduceFromPath\<close> with its two futures. Go strings are byte strings and are
  modelled as \<^typ>\<open>string\<close>; a Go \<^verbatim>\<open>(value, error)\<close> result is a value of
  the type \<open>res\<close> below, which also has a branch for a run-time panic.
\<close>

subsection \<open>Package strings\<close>

fun strip_prefix :: "string \<Rightarrow> string \<Rightarrow> string option" where
  "strip_prefix [] s = Some s"
| "strip_prefix (p # ps) [] = None"
| "strip_prefix (p # ps) (x # xs) = (if p = x then strip_prefix ps xs else None)"

definition HasPrefix :: "string \<Rightarrow> string \<Rightarrow> bool" where
  "HasPrefix s p = (strip_prefix p s \<noteq> None)"

definition TrimPrefix :: "string \<Rightarrow> string \<Rightarrow> string" where
  "TrimPrefix s p = (case strip_prefix p s of None \<Rightarrow> s | Some r \<Rightarrow> r)"

definition HasSuffix :: "string \<Rightarrow> string \<Rightarrow> bool" where
  "HasSuffix s suf = (length suf \<le> length s \<and> drop (length s - length suf) s = suf)"

text \<open>\<^verbatim>\<open>strings.Index\<close>: the offset of the first occurrence, or -1.\<close>

fun Index :: "string \<Rightarrow> string \<Rightarrow> int" where
  "Index [] sub = (if sub = [] then 0 else -1)"
| "Index (x # xs) sub =
     (if strip_prefix sub (x # xs) \<noteq> None then 0
      else (let i = Index xs sub in if i < 0 then -1 else i + 1))"

definition Contains :: "string \<Rightarrow> string \<Rightarrow> bool" where
  "Contains s sub = (0 \<le> Index s sub)"

text \<open>\<^verbatim>\<open>strings.SplitN(s, sep, 2)\<close> for a non-empty separator: at most two pieces,
  the second one the unsplit remainder.\<close>

definition SplitN_2 :: "string \<Rightarrow> string \<Rightarrow> string list" where
  "SplitN_2 s sep =
     (let i = Index s sep
      in if i < 0 then [s] else [take (nat i) s, drop (nat i + length sep) s])"

subsection \<open>Package regexp\<close>

text \<open>
  The patterns of the source use literals, bracket expressions, grouping, alternation,
  greedy and lazy repetition, and the anchors \<^verbatim>\<open>^\<close> and \<^verbatim>\<open>$\<close> (without the
  multi-line flag: beginning and end of the text). A bracket expression is a list of
  inclusive byte ranges. Capturing groups carry their number, counted by opening
  parenthesis from 1 as \<^verbatim>\<open>regexp\<close> does; a non-capturing group is just its body.
\<close>

type_synonym cls = "(char \<times> char) list"

datatype re =
    Eps
  | Bol
  | Eol
  | Str string
  | Cls cls
  | Cat re re
  | Alt re re
  | Star re
  | LazyStar re
  | Grp nat re

definition Plus :: "re \<Rightarrow> re" where
  "Plus r = Cat r (Star r)"

definition Opt :: "re \<Rightarrow> re" where
  "Opt r = Alt r Eps"

text \<open>\<^verbatim>\<open>x{0,2}\<close>, greedy: \<^verbatim>\<open>(?:x(?:x)?)?\<close>.\<close>

definition Rep02 :: "re \<Rightarrow> re" where
  "Rep02 r = Opt (Cat r (Opt r))"

fun cats :: "re list \<Rightarrow> re" where
  "cats [] = Eps"
| "cats [r] = r"
| "cats (r # rs) = Cat r (cats rs)"

fun in_cls :: "char \<Rightarrow> cls \<Rightarrow> bool" where
  "in_cls c [] = False"
| "in_cls c ((lo, hi) # rs) = ((lo \<le> c \<and> c \<le> hi) \<or> in_cls c rs)"

type_synonym caps = "string list"

text \<open>
  \<open>ms r inp s c\<close> matches \<open>r\<close> at the suffix \<open>s\<close> of the text \<open>inp\<close> with the
  capture registers \<open>c\<close>, and lists every way to do so as the remaining suffix and the
  registers, in the order of preference of leftmost-first matching (the semantics of
  \<^verbatim>\<open>regexp.MustCompile\<close>): the first alternative before the second, one more
  iteration of a greedy star before stopping, stopping before one more iteration of a
  lazy star. An iteration that consumes nothing is not repeated.
\<close>

fun ms :: "re \<Rightarrow> string \<Rightarrow> string \<Rightarrow> caps \<Rightarrow> (string \<times> caps) list" where
  "ms Eps inp s c = [(s, c)]"
| "ms Bol inp s c = (if length s = length inp then [(s, c)] else [])"
| "ms Eol inp s c = (if s = [] then [(s, c)] else [])"
| "ms (Str p) inp s c = (case strip_prefix p s of None \<Rightarrow> [] | Some s' \<Rightarrow> [(s', c)])"
| "ms (Cls k) inp s c =
     (case s of [] \<Rightarrow> [] | x # xs \<Rightarrow> if in_cls x k then [(xs, c)] else [])"
| "ms (Cat r1 r2) inp s c =
     concat (map (\<lambda>(s', c'). ms r2 inp s' c') (ms r1 inp s c))"
| "ms (Alt r1 r2) inp s c = ms r1 inp s c @ ms r2 inp s c"
| "ms (Star r) inp s c =
     concat (map (\<lambda>(s', c'). if length s' < length s then ms (Star r) inp s' c' else [])
                 (ms r inp s c)) @ [(s, c)]"
| "ms (LazyStar r) inp s c =
     (s, c) # concat (map (\<lambda>(s', c'). if length s' < length s then ms (LazyStar r) inp s' c' else [])
                 (ms r inp s c))"
| "ms (Grp i r) inp s c =
     map (\<lambda>(s', c'). (s', c'[i := take (length s - length s') s])) (ms r inp s c)"

fun ngroups :: "re \<Rightarrow> nat" where
  "ngroups (Cat r1 r2) = max (ngroups r1) (ngroups r2)"
| "ngroups (Alt r1 r2) = max (ngroups r1) (ngroups r2)"
| "ngroups (Star r) = ngroups r"
| "ngroups (LazyStar r) = ngroups r"
| "ngroups (Grp i r) = max i (ngroups r)"
| "ngroups r = 0"

text \<open>The leftmost match: the first start offset at which the pattern matches, and
  there the preferred way. Register 0 is the whole match.\<close>

fun find_from :: "re \<Rightarrow> nat \<Rightarrow> string \<Rightarrow> string \<Rightarrow> caps option" where
  "find_from r n inp [] =
     (case ms (Grp 0 r) inp [] (replicate (Suc n) []) of
        [] \<Rightarrow> None
      | (s', c) # rest \<Rightarrow> Some c)"
| "find_from r n inp (x # xs) =
     (case ms (Grp 0 r) inp (x # xs) (replicate (Suc n) []) of
        [] \<Rightarrow> find_from r n inp xs
      | (s', c) # rest \<Rightarrow> Some c)"

text \<open>\<^verbatim>\<open>FindStringSubmatch\<close>: \<open>None\<close> is the nil slice; otherwise the text of the
  match and of every group, the empty string for a group that took no part.\<close>

definition FindStringSubmatch :: "re \<Rightarrow> string \<Rightarrow> string list option" where
  "FindStringSubmatch r s = find_from r (ngroups r) s s"

definition MatchString :: "re \<Rightarrow> string \<Rightarrow> bool" where
  "MatchString r s = (FindStringSubmatch r s \<noteq> None)"

subsection \<open>The patterns of the import path flavours\<close>

definition upper :: "char \<times> char" where "upper = (CHR ''A'', CHR ''Z'')"
definition lower :: "char \<times> char" where "lower = (CHR ''a'', CHR ''z'')"
definition digit :: "char \<times> char" where "digit = (CHR ''0'', CHR ''9'')"
definition digit19 :: "char \<times> char" where "digit19 = (CHR ''1'', CHR ''9'')"
definition lit :: "char \<Rightarrow> char \<times> char" where "lit c = (c, c)"

text \<open>\<^verbatim>\<open>[A-Za-z0-9_.\-]\<close>\<close>

definition seg :: cls where
  "seg = [upper, lower, digit, lit CHR ''_'', lit CHR ''.'', lit CHR ''-'']"

text \<open>\<^verbatim>\<open>((?:/[A-Za-z0-9_.\-]+)*)\<close> as group \<open>i\<close>\<close>

definition subpath :: "nat \<Rightarrow> re" where
  "subpath i = Grp i (Star (Cat (Str ''/'') (Plus (Cls seg))))"

text \<open>\<^verbatim>\<open>^(?P<root>github\.com/([A-Za-z0-9][-A-Za-z0-9]*[A-Za-z0-9]/[A-Za-z0-9_.\-]+))((?:/[A-Za-z0-9_.\-]+)*)$\<close>\<close>

definition ghRegex :: re where
  "ghRegex = cats [Bol,
     Grp 1 (Cat (Str ''github.com/'')
       (Grp 2 (cats [Cls [upper, lower, digit],
                     Star (Cls [lit CHR ''-'', upper, lower, digit]),
                     Cls [upper, lower, digit],
                     Str ''/'',
                     Plus (Cls seg)]))),
     subpath 3,
     Eol]"

text \<open>\<^verbatim>\<open>^(?P<root>gopkg\.in/(?:([a-zA-Z0-9][-a-zA-Z0-9]+)/)?([a-zA-Z][-.a-zA-Z0-9]*)\.((?:v0|v[1-9][0-9]*)(?:\.0|\.[1-9][0-9]*){0,2}(-unstable)?)(?:\.git)?)((?:/[a-zA-Z0-9][-.a-zA-Z0-9]*)*)$\<close>\<close>

definition gpinNewRegex :: re where
  "gpinNewRegex = cats [Bol,
     Grp 1 (cats [Str ''gopkg.in/'',
       Opt (Cat (Grp 2 (Cat (Cls [lower, upper, digit])
                            (Plus (Cls [lit CHR ''-'', lower, upper, digit]))))
                (Str ''/'')),
       Grp 3 (Cat (Cls [lower, upper])
                  (Star (Cls [lit CHR ''-'', lit CHR ''.'', lower, upper, digit]))),
       Str ''.'',
       Grp 4 (cats [Alt (Str ''v0'') (cats [Str ''v'', Cls [digit19], Star (Cls [digit])]),
                    Rep02 (Alt (Str ''.0'') (cats [Str ''.'', Cls [digit19], Star (Cls [digit])])),
                    Opt (Grp 5 (Str ''-unstable''))]),
       Opt (Str ''.git'')]),
     Grp 6 (Star (cats [Str ''/'', Cls [lower, upper, digit],
                        Star (Cls [lit CHR ''-'', lit CHR ''.'', lower, upper, digit])])),
     Eol]"

text \<open>\<^verbatim>\<open>^(?P<root>bitbucket\.org/(?P<bitname>[A-Za-z0-9_.\-]+/[A-Za-z0-9_.\-]+))((?:/[A-Za-z0-9_.\-]+)*)$\<close>\<close>

definition bbRegex :: re where
  "bbRegex = cats [Bol,
     Grp 1 (Cat (Str ''bitbucket.org/'')
       (Grp 2 (cats [Plus (Cls seg), Str ''/'', Plus (Cls seg)]))),
     subpath 3,
     Eol]"

text \<open>\<^verbatim>\<open>^(?P<root>launchpad\.net/([A-Za-z0-9-._]+))((?:/[A-Za-z0-9_.\-]+)*)?\<close>
  (no \<^verbatim>\<open>$\<close>)\<close>

definition lpRegex :: re where
  "lpRegex = cats [Bol,
     Grp 1 (Cat (Str ''launchpad.net/'')
       (Grp 2 (Plus (Cls [upper, lower, digit, lit CHR ''-'', lit CHR ''.'', lit CHR ''_''])))),
     Opt (subpath 3)]"

text \<open>\<^verbatim>\<open>^(?P<root>git\.launchpad\.net/([A-Za-z0-9_.\-]+))((?:/[A-Za-z0-9_.\-]+)*)$\<close>\<close>

definition glpRegex :: re where
  "glpRegex = cats [Bol,
     Grp 1 (Cat (Str ''git.launchpad.net/'') (Grp 2 (Plus (Cls seg)))),
     subpath 3,
     Eol]"

text \<open>\<^verbatim>\<open>^(?P<root>hub\.jazz\.net/(git/[a-z0-9]+/[A-Za-z0-9_.\-]+))((?:/[A-Za-z0-9_.\-]+)*)$\<close>\<close>

definition jazzRegex :: re where
  "jazzRegex = cats [Bol,
     Grp 1 (Cat (Str ''hub.jazz.net/'')
       (Grp 2 (cats [Str ''git/'', Plus (Cls [lower, digit]), Str ''/'', Plus (Cls seg)]))),
     subpath 3,
     Eol]"

text \<open>\<^verbatim>\<open>^(?P<root>git\.apache\.org/([a-z0-9_.\-]+\.git))((?:/[A-Za-z0-9_.\-]+)*)$\<close>\<close>

definition apacheRegex :: re where
  "apacheRegex = cats [Bol,
     Grp 1 (Cat (Str ''git.apache.org/'')
       (Grp 2 (Cat (Plus (Cls [lower, digit, lit CHR ''_'', lit CHR ''.'', lit CHR ''-'']))
                   (Str ''.git'')))),
     subpath 3,
     Eol]"

text \<open>\<^verbatim>\<open>^(?P<root>(?P<repo>([a-z0-9.\-]+\.)+[a-z0-9.\-]+(:[0-9]+)?/[A-Za-z0-9_.\-/~]*?)\.(?P<vcs>bzr|git|hg|svn))((?:/[A-Za-z0-9_.\-]+)*)$\<close>\<close>

definition hostcls :: cls where
  "hostcls = [lower, digit, lit CHR ''.'', lit CHR ''-'']"

definition vcsExtensionRegex :: re where
  "vcsExtensionRegex = cats [Bol,
     Grp 1 (cats [
       Grp 2 (cats [Plus (Grp 3 (Cat (Plus (Cls hostcls)) (Str ''.''))),
                    Plus (Cls hostcls),
                    Opt (Grp 4 (Cat (Str '':'') (Plus (Cls [digit])))),
                    Str ''/'',
                    LazyStar (Cls [upper, lower, digit, lit CHR ''_'', lit CHR ''.'',
                                   lit CHR ''-'', lit CHR ''/'', lit CHR ''~''])]),
       Str ''.'',
       Grp 5 (Alt (Str ''bzr'') (Alt (Str ''git'') (Alt (Str ''hg'') (Str ''svn''))))]),
     subpath 6,
     Eol]"

text \<open>\<^verbatim>\<open>^([a-zA-Z0-9_]+)@([a-zA-Z0-9._-]+):(.*)$\<close>; the dot is any byte but the
  line feed.\<close>

definition scpSyntaxRe :: re where
  "scpSyntaxRe = cats [Bol,
     Grp 1 (Plus (Cls [lower, upper, digit, lit CHR ''_''])),
     Str ''@'',
     Grp 2 (Plus (Cls [lower, upper, digit, lit CHR ''.'', lit CHR ''_'', lit CHR ''-''])),
     Str '':'',
     Grp 3 (Star (Cls [(CHR 0x00, CHR 0x09), (CHR 0x0B, CHR 0xFF)])),
     Eol]"

text \<open>\<^verbatim>\<open>^([A-Za-z0-9-]+)(\.[A-Za-z0-9-]+)+(/[A-Za-z0-9-_.~]+)*$\<close>\<close>

definition pathvld :: re where
  "pathvld = cats [Bol,
     Grp 1 (Plus (Cls [upper, lower, digit, lit CHR ''-''])),
     Plus (Grp 2 (Cat (Str ''.'') (Plus (Cls [upper, lower, digit, lit CHR ''-''])))),
     Star (Grp 3 (Cat (Str ''/'')
        (Plus (Cls [upper, lower, digit, lit CHR ''-'', lit CHR ''_'', lit CHR ''.'',
                    lit CHR ''~''])))),
     Eol]"

subsection \<open>URLs, errors, candidate sources\<close>

text \<open>The fields of \<^verbatim>\<open>url.URL\<close> that this file reads or writes. \<open>User\<close> is the
  pointer to the user information, \<open>None\<close> when nil, else the user name.\<close>

record url =
  Scheme :: string
  User :: "string option"
  Host :: string
  Path :: string

definition Username :: "url \<Rightarrow> string" where
  "Username u = (case User u of None \<Rightarrow> [] | Some n \<Rightarrow> n)"

text \<open>An error made by \<^verbatim>\<open>fmt.Errorf\<close> is kept as its format and its operands; an
  error of a collaborator outside this file is \<open>External\<close>.\<close>

datatype error =
    Errorf string "operand list"
  | External string
and operand =
    S string
  | E error

datatype panic =
    PanicMsg string
  | IndexOutOfRange nat nat
  | NilFunc

datatype 'a res =
    Ok 'a
  | Err error
  | Panic panic

fun then_res :: "'a res \<Rightarrow> ('a \<Rightarrow> 'b res) \<Rightarrow> 'b res" where
  "then_res (Ok x) f = f x"
| "then_res (Err e) f = Err e"
| "then_res (Panic p) f = Panic p"

text \<open>Indexing a slice: out of range is a run-time panic.\<close>

definition at :: "'a list \<Rightarrow> nat \<Rightarrow> 'a res" where
  "at xs i = (if i < length xs then Ok (xs ! i) else Panic (IndexOutOfRange i (length xs)))"

text \<open>The implementations of the interface \<^verbatim>\<open>maybeSource\<close> that this file builds;
  \<open>nilSource\<close> is the nil interface value, which \<^verbatim>\<open>make(maybeSources, n)\<close>
  fills a fresh slice with. The \<^verbatim>\<open>url\<close> field is a pointer.\<close>

datatype maybeSource =
    nilSource
  | maybeGitSource "url option"
  | maybeBzrSource "url option"
  | maybeHgSource "url option"
  | maybeSources "maybeSource list"

definition gitSchemes :: "string list" where
  "gitSchemes = [''https'', ''ssh'', ''git'', ''http'']"

definition bzrSchemes :: "string list" where
  "bzrSchemes = [''https'', ''bzr+ssh'', ''bzr'', ''http'']"

definition hgSchemes :: "string list" where
  "hgSchemes = [''https'', ''ssh'', ''http'']"

definition svnSchemes :: "string list" where
  "svnSchemes = [''https'', ''http'', ''svn'', ''svn+ssh'']"

definition validateVCSScheme :: "string \<Rightarrow> string \<Rightarrow> bool res" where
  "validateVCSScheme scheme typ =
     (if typ = ''git'' then Ok (scheme \<in> set gitSchemes)
      else if typ = ''bzr'' then Ok (scheme \<in> set bzrSchemes)
      else if typ = ''hg'' then Ok (scheme \<in> set hgSchemes)
      else if typ = ''svn'' then Ok (scheme \<in> set svnSchemes)
      else Panic (PanicMsg (''unsupported vcs type'' @ scheme)))"

subsection \<open>Futures\<close>

text \<open>
  The closures that this file returns, one constructor for each function literal:
  \<open>simpleStringFuture s\<close> returns \<open>(s, nil)\<close>; \<open>metadataFuture\<close> is the root
  future of the vanity stage of \<^verbatim>\<open>deduceFromPath\<close>, which waits for the metadata
  goroutine; \<open>sourceFutureFactory mb\<close> is the factory that tries the candidate
  \<open>mb\<close>; \<open>vanityFutureSource\<close> is the factory of the vanity stage.
\<close>

datatype futureString =
    simpleStringFuture string
  | metadataFuture

datatype deferredFutureSource =
    sourceFutureFactory maybeSource
  | vanityFutureSource

subsection \<open>The matchers\<close>

text \<open>\<^verbatim>\<open>mb := make(maybeSources, n)\<close>\<close>

definition make_maybeSources :: "nat \<Rightarrow> maybeSource list" where
  "make_maybeSources n = replicate n nilSource"

text \<open>
  \<^verbatim>\<open>for k, scheme := range schemes { u2 := *u; u2.Scheme = scheme; mb[k] = mk(&u2) }\<close>,
  from index \<open>k\<close> on: an assignment beyond the length of \<open>mb\<close> panics.
\<close>

fun fill :: "(url option \<Rightarrow> maybeSource) \<Rightarrow> url \<Rightarrow> maybeSource list \<Rightarrow> nat \<Rightarrow> string list
    \<Rightarrow> maybeSource list res" where
  "fill mk u mb k [] = Ok mb"
| "fill mk u mb k (scheme # rest) =
     (if k < length mb
      then fill mk u (mb[k := mk (Some (u\<lparr>Scheme := scheme\<rparr>))]) (Suc k) rest
      else Panic (IndexOutOfRange k (length mb)))"

text \<open>
  \<^verbatim>\<open>for _, scheme := range schemes { u2 := *u; u2.Scheme = scheme; mb = append(mb, mk(&u2)) }\<close>
\<close>

definition append_all :: "(url option \<Rightarrow> maybeSource) \<Rightarrow> url \<Rightarrow> maybeSource list \<Rightarrow> string list
    \<Rightarrow> maybeSource list" where
  "append_all mk u mb schemes =
     foldl (\<lambda>mb scheme. mb @ [mk (Some (u\<lparr>Scheme := scheme\<rparr>))]) mb schemes"

text \<open>The eight matchers; each holds its compiled pattern in the field \<^verbatim>\<open>regexp\<close>.\<close>

datatype matcher =
    githubMatcher re
  | bitbucketMatcher re
  | gopkginMatcher re
  | launchpadMatcher re
  | launchpadGitMatcher re
  | jazzMatcher re
  | apacheMatcher re
  | vcsExtensionMatcher re

definition githubMatcher_deduceRoot :: "re \<Rightarrow> string \<Rightarrow> futureString res" where
  "githubMatcher_deduceRoot rx path =
     (case FindStringSubmatch rx path of
        None \<Rightarrow> Err (Errorf ''%s is not a valid path for a source on github.com'' [S path])
      | Some v \<Rightarrow> then_res (at v 2) (\<lambda>v2. Ok (simpleStringFuture (''github.com/'' @ v2))))"

definition bitbucketMatcher_deduceRoot :: "re \<Rightarrow> string \<Rightarrow> futureString res" where
  "bitbucketMatcher_deduceRoot rx path =
     (case FindStringSubmatch rx path of
        None \<Rightarrow> Err (Errorf ''%s is not a valid path for a source on bitbucket.org'' [S path])
      | Some v \<Rightarrow> then_res (at v 2) (\<lambda>v2. Ok (simpleStringFuture (''bitbucket.org/'' @ v2))))"

definition gopkginMatcher_deduceRoot :: "re \<Rightarrow> string \<Rightarrow> futureString res" where
  "gopkginMatcher_deduceRoot rx path =
     (case FindStringSubmatch rx path of
        None \<Rightarrow> Err (Errorf ''%s is not a valid path for a source on gopkg.in'' [S path])
      | Some v \<Rightarrow> then_res (at v 2) (\<lambda>v2. Ok (simpleStringFuture (''gopkg.in/'' @ v2))))"

definition launchpadMatcher_deduceRoot :: "re \<Rightarrow> string \<Rightarrow> futureString res" where
  "launchpadMatcher_deduceRoot rx path =
     (case FindStringSubmatch rx path of
        None \<Rightarrow> Err (Errorf ''%s is not a valid path for a source on launchpad.net'' [S path])
      | Some v \<Rightarrow> then_res (at v 2) (\<lambda>v2. Ok (simpleStringFuture (''launchpad.net/'' @ v2))))"

definition launchpadGitMatcher_deduceRoot :: "re \<Rightarrow> string \<Rightarrow> futureString res" where
  "launchpadGitMatcher_deduceRoot rx path =
     (case FindStringSubmatch rx path of
        None \<Rightarrow> Err (Errorf ''%s is not a valid path for a source on git.launchpad.net'' [S path])
      | Some v \<Rightarrow> then_res (at v 2) (\<lambda>v2. Ok (simpleStringFuture (''git.launchpad.net/'' @ v2))))"

definition jazzMatcher_deduceRoot :: "re \<Rightarrow> string \<Rightarrow> futureString res" where
  "jazzMatcher_deduceRoot rx path =
     (case FindStringSubmatch rx path of
        None \<Rightarrow> Err (Errorf ''%s is not a valid path for a source on hub.jazz.net'' [S path])
      | Some v \<Rightarrow> then_res (at v 2) (\<lambda>v2. Ok (simpleStringFuture (''hub.jazz.net/'' @ v2))))"

definition apacheMatcher_deduceRoot :: "re \<Rightarrow> string \<Rightarrow> futureString res" where
  "apacheMatcher_deduceRoot rx path =
     (case FindStringSubmatch rx path of
        None \<Rightarrow> Err (Errorf ''%s is not a valid path for a source on git.apache.org'' [S path])
      | Some v \<Rightarrow> then_res (at v 2) (\<lambda>v2. Ok (simpleStringFuture (''git.apache.org/'' @ v2))))"

definition vcsExtensionMatcher_deduceRoot :: "re \<Rightarrow> string \<Rightarrow> futureString res" where
  "vcsExtensionMatcher_deduceRoot rx path =
     (case FindStringSubmatch rx path of
        None \<Rightarrow> Err (Errorf ''%s contains no vcs extension hints for matching'' [S path])
      | Some v \<Rightarrow> then_res (at v 1) (\<lambda>v1. Ok (simpleStringFuture v1)))"

fun deduceRoot :: "matcher \<Rightarrow> string \<Rightarrow> futureString res" where
  "deduceRoot (githubMatcher rx) path = githubMatcher_deduceRoot rx path"
| "deduceRoot (bitbucketMatcher rx) path = bitbucketMatcher_deduceRoot rx path"
| "deduceRoot (gopkginMatcher rx) path = gopkginMatcher_deduceRoot rx path"
| "deduceRoot (launchpadMatcher rx) path = launchpadMatcher_deduceRoot rx path"
| "deduceRoot (launchpadGitMatcher rx) path = launchpadGitMatcher_deduceRoot rx path"
| "deduceRoot (jazzMatcher rx) path = jazzMatcher_deduceRoot rx path"
| "deduceRoot (apacheMatcher rx) path = apacheMatcher_deduceRoot rx path"
| "deduceRoot (vcsExtensionMatcher rx) path = vcsExtensionMatcher_deduceRoot rx path"

definition githubMatcher_deduceSource :: "re \<Rightarrow> string \<Rightarrow> url \<Rightarrow> deferredFutureSource res" where
  "githubMatcher_deduceSource rx path u0 =
     (case FindStringSubmatch rx path of
        None \<Rightarrow> Err (Errorf ''%s is not a valid path for a source on github.com'' [S path])
      | Some v \<Rightarrow>
          then_res (at v 2) (\<lambda>v2.
            let u = u0\<lparr>Path := v2\<rparr> in
            if Scheme u \<noteq> [] then
              then_res (validateVCSScheme (Scheme u) ''git'') (\<lambda>valid.
                if \<not> valid
                then Err (Errorf ''%s is not a valid scheme for accessing a git repository''
                            [S (Scheme u)])
                else Ok (sourceFutureFactory (maybeGitSource (Some u))))
            else
              then_res (fill maybeGitSource u (make_maybeSources (length gitSchemes)) 0 gitSchemes) (\<lambda>mb.
                Ok (sourceFutureFactory (maybeSources mb)))))"

definition launchpadMatcher_deduceSource :: "re \<Rightarrow> string \<Rightarrow> url \<Rightarrow> deferredFutureSource res" where
  "launchpadMatcher_deduceSource rx path u0 =
     (case FindStringSubmatch rx path of
        None \<Rightarrow> Err (Errorf ''%s is not a valid path for a source on launchpad.net'' [S path])
      | Some v \<Rightarrow>
          then_res (at v 2) (\<lambda>v2.
            let u = u0\<lparr>Path := v2\<rparr> in
            if Scheme u \<noteq> [] then
              then_res (validateVCSScheme (Scheme u) ''bzr'') (\<lambda>valid.
                if \<not> valid
                then Err (Errorf ''%s is not a valid scheme for accessing a bzr repository''
                            [S (Scheme u)])
                else Ok (sourceFutureFactory (maybeBzrSource (Some u))))
            else
              then_res (fill maybeBzrSource u (make_maybeSources (length bzrSchemes)) 0 bzrSchemes) (\<lambda>mb.
                Ok (sourceFutureFactory (maybeSources mb)))))"

definition launchpadGitMatcher_deduceSource :: "re \<Rightarrow> string \<Rightarrow> url \<Rightarrow> deferredFutureSource res" where
  "launchpadGitMatcher_deduceSource rx path u0 =
     (case FindStringSubmatch rx path of
        None \<Rightarrow> Err (Errorf ''%s is not a valid path for a source on git.launchpad.net'' [S path])
      | Some v \<Rightarrow>
          then_res (at v 2) (\<lambda>v2.
            let u = u0\<lparr>Path := v2\<rparr> in
            if Scheme u \<noteq> [] then
              then_res (validateVCSScheme (Scheme u) ''git'') (\<lambda>valid.
                if \<not> valid
                then Err (Errorf ''%s is not a valid scheme for accessing a git repository''
                            [S (Scheme u)])
                else Ok (sourceFutureFactory (maybeGitSource (Some u))))
            else
              then_res (fill maybeGitSource u (make_maybeSources (length bzrSchemes)) 0 bzrSchemes) (\<lambda>mb.
                Ok (sourceFutureFactory (maybeSources mb)))))"

definition jazzMatcher_deduceSource :: "re \<Rightarrow> string \<Rightarrow> url \<Rightarrow> deferredFutureSource res" where
  "jazzMatcher_deduceSource rx path u0 =
     (case FindStringSubmatch rx path of
        None \<Rightarrow> Err (Errorf ''%s is not a valid path for a source on hub.jazz.net'' [S path])
      | Some v \<Rightarrow>
          then_res (at v 2) (\<lambda>v2.
            let u = u0\<lparr>Path := v2\<rparr> in
            if Scheme u \<noteq> [] then
              then_res (validateVCSScheme (Scheme u) ''git'') (\<lambda>valid.
                if \<not> valid
                then Err (Errorf ''%s is not a valid scheme for accessing a git repository''
                            [S (Scheme u)])
                else Ok (sourceFutureFactory (maybeGitSource (Some u))))
            else
              then_res (fill maybeGitSource u (make_maybeSources (length gitSchemes)) 0 gitSchemes) (\<lambda>mb.
                Ok (sourceFutureFactory (maybeSources mb)))))"

definition apacheMatcher_deduceSource :: "re \<Rightarrow> string \<Rightarrow> url \<Rightarrow> deferredFutureSource res" where
  "apacheMatcher_deduceSource rx path u0 =
     (case FindStringSubmatch rx path of
        None \<Rightarrow> Err (Errorf ''%s is not a valid path for a source on git.apache.org'' [S path])
      | Some v \<Rightarrow>
          then_res (at v 2) (\<lambda>v2.
            let u = u0\<lparr>Path := v2\<rparr> in
            if Scheme u \<noteq> [] then
              then_res (validateVCSScheme (Scheme u) ''git'') (\<lambda>valid.
                if \<not> valid
                then Err (Errorf ''%s is not a valid scheme for accessing a git repository''
                            [S (Scheme u)])
                else Ok (sourceFutureFactory (maybeGitSource (Some u))))
            else
              then_res (fill maybeGitSource u (make_maybeSources (length gitSchemes)) 0 gitSchemes) (\<lambda>mb.
                Ok (sourceFutureFactory (maybeSources mb)))))"

definition bitbucketMatcher_deduceSource :: "re \<Rightarrow> string \<Rightarrow> url \<Rightarrow> deferredFutureSource res" where
  "bitbucketMatcher_deduceSource rx path u0 =
     (case FindStringSubmatch rx path of
        None \<Rightarrow> Err (Errorf ''%s is not a valid path for a source on bitbucket.org'' [S path])
      | Some v \<Rightarrow>
          then_res (at v 2) (\<lambda>v2.
            let u = u0\<lparr>Path := v2\<rparr>;
                isgit = (HasSuffix (Path u) ''.git'' \<or> Username u = ''git'');
                ishg = (HasSuffix (Path u) ''.hg'' \<or> Username u = ''hg'')
            in
            if Scheme u \<noteq> [] then
              then_res (validateVCSScheme (Scheme u) ''git'') (\<lambda>validgit.
              then_res (validateVCSScheme (Scheme u) ''hg'') (\<lambda>validhg.
                if isgit then
                  (if \<not> validgit
                   then Err (Errorf ''%s is not a valid scheme for accessing a git repository''
                               [S (Scheme u)])
                   else Ok (sourceFutureFactory (maybeGitSource (Some u))))
                else if ishg then
                  (if \<not> validhg
                   then Err (Errorf ''%s is not a valid scheme for accessing an hg repository''
                               [S (Scheme u)])
                   else Ok (sourceFutureFactory (maybeHgSource (Some u))))
                else if \<not> validgit \<and> \<not> validhg then
                  Err (Errorf ''%s is not a valid scheme for accessing either a git or hg repository''
                         [S (Scheme u)])
                else
                  Ok (sourceFutureFactory
                        (maybeSources [maybeGitSource (Some u), maybeHgSource (Some u)]))))
            else
              let mb = [];
                  mb = (if \<not> ishg then append_all maybeGitSource u mb gitSchemes else mb);
                  mb = (if \<not> isgit then append_all maybeHgSource u mb hgSchemes else mb)
              in Ok (sourceFutureFactory (maybeSources mb))))"

definition gopkginMatcher_deduceSource :: "re \<Rightarrow> string \<Rightarrow> url \<Rightarrow> deferredFutureSource res" where
  "gopkginMatcher_deduceSource rx path u0 =
     (case FindStringSubmatch rx path of
        None \<Rightarrow> Err (Errorf ''%s is not a valid path for a source on gopkg.in'' [S path])
      | Some v \<Rightarrow>
          then_res (at v 4) (\<lambda>v4.
            if Contains v4 ''.'' then
              Err (Errorf ''%q is not a valid import path; gopkg.in only allows major versions (%q instead of %q)''
                     [S path, S (take (nat (Index v4 ''.'')) v4), S v4])
            else if Scheme u0 \<noteq> [] then
              Err (Errorf ''Specifying alternate schemes on gopkg.in imports is not permitted'' [])
            else
              then_res (at v 2) (\<lambda>v2.
              then_res (at v 3) (\<lambda>v3.
                let u = u0\<lparr>Host := ''github.com''\<rparr>;
                    u = (if v2 = [] then u\<lparr>Path := ''go-pkg/'' @ v3\<rparr>
                         else u\<lparr>Path := v2 @ ''/'' @ v3\<rparr>)
                in then_res (fill maybeGitSource u (make_maybeSources (length gitSchemes)) 0 gitSchemes) (\<lambda>mb.
                     Ok (sourceFutureFactory (maybeSources mb)))))))"

text \<open>
  The generic matcher. After the explicit-scheme branch, the inner \<^verbatim>\<open>switch\<close>
  chooses \<open>schemes\<close> and the function \<open>f\<close> that stores a candidate (both stay nil when
  no case applies), \<open>mb\<close> gets the length of \<open>schemes\<close>, and the loop ranges over
  \<^verbatim>\<open>gitSchemes\<close>.
\<close>

definition vcsExtensionMatcher_deduceSource :: "re \<Rightarrow> string \<Rightarrow> url \<Rightarrow> deferredFutureSource res" where
  "vcsExtensionMatcher_deduceSource rx path u0 =
     (case FindStringSubmatch rx path of
        None \<Rightarrow> Err (Errorf ''%s contains no vcs extension hints for matching'' [S path])
      | Some v \<Rightarrow>
          then_res (at v 5) (\<lambda>v5.
            if v5 = ''git'' \<or> v5 = ''hg'' \<or> v5 = ''bzr'' then
              then_res (at v 1) (\<lambda>v1.
                let x = SplitN_2 v1 ''/'' in
                then_res (at x 0) (\<lambda>x0.
                then_res (at x 1) (\<lambda>x1.
                  let u = u0\<lparr>Host := x0, Path := x1\<rparr> in
                  then_res
                    (if Scheme u \<noteq> [] then
                       then_res (validateVCSScheme (Scheme u) v5) (\<lambda>valid.
                         if \<not> valid then
                           Err (Errorf ''%s is not a valid scheme for accessing %s repositories (path %s)''
                                  [S (Scheme u), S v5, S path])
                         else if v5 = ''git'' then Ok (Some (sourceFutureFactory (maybeGitSource (Some u))))
                         else if v5 = ''bzr'' then Ok (Some (sourceFutureFactory (maybeBzrSource (Some u))))
                         else if v5 = ''hg'' then Ok (Some (sourceFutureFactory (maybeHgSource (Some u))))
                         else Ok None)
                     else Ok None)
                    (\<lambda>returned.
                       case returned of
                         Some factory \<Rightarrow> Ok factory
                       | None \<Rightarrow>
                           let (schemes, f) =
                                 (if v5 = ''git'' then (gitSchemes, Some maybeGitSource)
                                  else if v5 = ''bzr'' then (bzrSchemes, Some maybeBzrSource)
                                  else if v5 = ''hg'' then (hgSchemes, Some maybeHgSource)
                                  else ([], None));
                               mb = make_maybeSources (length schemes)
                           in then_res
                                (case f of
                                   None \<Rightarrow> Panic NilFunc
                                 | Some mk \<Rightarrow> fill mk u mb 0 gitSchemes)
                                (\<lambda>mb. Ok (sourceFutureFactory (maybeSources mb)))))))
            else Err (Errorf ''unknown repository type: %q'' [S v5])))"

fun deduceSource :: "matcher \<Rightarrow> string \<Rightarrow> url \<Rightarrow> deferredFutureSource res" where
  "deduceSource (githubMatcher rx) path u = githubMatcher_deduceSource rx path u"
| "deduceSource (bitbucketMatcher rx) path u = bitbucketMatcher_deduceSource rx path u"
| "deduceSource (gopkginMatcher rx) path u = gopkginMatcher_deduceSource rx path u"
| "deduceSource (launchpadMatcher rx) path u = launchpadMatcher_deduceSource rx path u"
| "deduceSource (launchpadGitMatcher rx) path u = launchpadGitMatcher_deduceSource rx path u"
| "deduceSource (jazzMatcher rx) path u = jazzMatcher_deduceSource rx path u"
| "deduceSource (apacheMatcher rx) path u = apacheMatcher_deduceSource rx path u"
| "deduceSource (vcsExtensionMatcher rx) path u = vcsExtensionMatcher_deduceSource rx path u"


subsection \<open>normalizeURI\<close>

text \<open>\<^verbatim>\<open>url.Parse\<close> belongs to the standard library and is a parameter: \<open>Inl\<close> is
  its error, \<open>Inr\<close> the parsed URL.\<close>

definition normalizeURI :: "(string \<Rightarrow> error + url) \<Rightarrow> string \<Rightarrow> url res" where
  "normalizeURI parse path =
     then_res
       (case FindStringSubmatch scpSyntaxRe path of
          Some m \<Rightarrow>
            then_res (at m 1) (\<lambda>m1.
            then_res (at m 2) (\<lambda>m2.
            then_res (at m 3) (\<lambda>m3.
              Ok \<lparr>Scheme = ''ssh'', User = Some m1, Host = m2, Path = ''/'' @ m3\<rparr>)))
        | None \<Rightarrow>
            (case parse path of
               Inl err \<Rightarrow> Err (Errorf ''%q is not a valid URI'' [S path])
             | Inr u \<Rightarrow> Ok u))
       (\<lambda>u.
          let path = (if Host u \<noteq> [] then Host u @ ''/'' @ TrimPrefix (Path u) ''/''
                      else Path u)
          in if \<not> MatchString pathvld path
             then Err (Errorf ''%q is not a valid import path'' [S path])
             else Ok u)"

subsection \<open>Metadata lookup\<close>

text \<open>
  What lies outside this file is a parameter: \<^verbatim>\<open>url.Parse\<close> and \<^verbatim>\<open>http.Get\<close> of
  the standard library (of a response only the body is used), the parser
  \<^verbatim>\<open>parseMetaGoImports\<close> and the method \<^verbatim>\<open>try\<close> of the candidate sources, which
  returns a Go pair of a source and an error. The requests sent and the candidates
  tried are recorded in the \<open>world\<close>.
\<close>

type_synonym body = string

record metaImport =
  Prefix :: string
  VCS :: string
  RepoRoot :: string

record ('src, 'an) env =
  url_Parse :: "string \<Rightarrow> error + url"
  http_Get :: "string \<Rightarrow> error + body"
  parseMetaGoImports :: "body \<Rightarrow> error + metaImport list"
  try_source :: "maybeSource \<Rightarrow> string \<Rightarrow> 'an \<Rightarrow> 'src option \<times> error option"

record world =
  netlog :: "string list"
  trylog :: "(maybeSource \<times> string) list"

definition doFetchMetadata :: "('src, 'an) env \<Rightarrow> string \<Rightarrow> string \<Rightarrow> world
    \<Rightarrow> (error + body) \<times> world" where
  "doFetchMetadata env scheme path w =
     (let url = scheme @ ''://'' @ path @ ''?go-get=1'' in
      if scheme = ''https'' \<or> scheme = ''http'' then
        (case http_Get env url of
           Inl err \<Rightarrow> (Inl (Errorf ''failed to access url %q'' [S url]),
                       w\<lparr>netlog := netlog w @ [url]\<rparr>)
         | Inr rc \<Rightarrow> (Inr rc, w\<lparr>netlog := netlog w @ [url]\<rparr>))
      else (Inl (Errorf ''unknown remote protocol scheme: %q'' [S scheme]), w))"

definition fetchMetadata :: "('src, 'an) env \<Rightarrow> string \<Rightarrow> world \<Rightarrow> (error + body) \<times> world" where
  "fetchMetadata env path w =
     (case doFetchMetadata env ''https'' path w of
        (Inr rc, w1) \<Rightarrow> (Inr rc, w1)
      | (Inl err1, w1) \<Rightarrow>
          (case doFetchMetadata env ''http'' path w1 of
             (Inr rc, w2) \<Rightarrow> (Inr rc, w2)
           | (Inl err, w2) \<Rightarrow>
               (Inl (Errorf ''unable to determine remote metadata protocol: %s'' [E err]), w2)))"

text \<open>The loop of \<^verbatim>\<open>parseMetadata\<close> over the entries from index \<open>i\<close> on, with the
  variable \<^verbatim>\<open>match\<close>.\<close>

fun matchLoop :: "string \<Rightarrow> metaImport list \<Rightarrow> nat \<Rightarrow> int \<Rightarrow> error + int" where
  "matchLoop path [] i match = Inr match"
| "matchLoop path (im # rest) i match =
     (if \<not> HasPrefix path (Prefix im) then matchLoop path rest (Suc i) match
      else if match \<noteq> -1
        then Inl (Errorf ''multiple meta tags match import path %q'' [S path])
      else matchLoop path rest (Suc i) (int i))"

text \<open>The Go result \<^verbatim>\<open>(string, string, string, error)\<close> is kept as it is, the error
  \<open>None\<close> when nil. The index \<open>match\<close> read at the end was set by the loop to a
  position of \<open>imports\<close>.\<close>

definition parseMetadata :: "('src, 'an) env \<Rightarrow> string \<Rightarrow> world
    \<Rightarrow> (string \<times> string \<times> string \<times> error option) \<times> world" where
  "parseMetadata env path w =
     (case fetchMetadata env path w of
        (Inl err, w1) \<Rightarrow> (([], [], [], Some err), w1)
      | (Inr rc, w1) \<Rightarrow>
          (case parseMetaGoImports env rc of
             Inl err \<Rightarrow> (([], [], [], Some err), w1)
           | Inr imports \<Rightarrow>
               (case matchLoop path imports 0 (-1) of
                  Inl err \<Rightarrow> (([], [], [], Some err), w1)
                | Inr match \<Rightarrow>
                    if match = -1
                    then (([], [], [], Some (Errorf ''go-import metadata not found'' [])), w1)
                    else ((Prefix (imports ! nat match), VCS (imports ! nat match),
                           RepoRoot (imports ! nat match), None), w1))))"

subsection \<open>deduceFromPath\<close>

text \<open>
  Modelled from the spec: \<^verbatim>\<open>sm.rootxt\<close> is a longest-prefix-matchable structure
  keyed by literal domain roots (a radix tree of a library), built outside this file.
  It is a parameter, an association list from keys to matchers, and \<open>LongestPrefix\<close>
  returns the entry with the longest key that is a prefix of the argument.
\<close>

fun LongestPrefix :: "(string \<times> 'v) list \<Rightarrow> string \<Rightarrow> (string \<times> 'v) option" where
  "LongestPrefix [] s = None"
| "LongestPrefix ((k, v) # t) s =
     (case LongestPrefix t s of
        None \<Rightarrow> if HasPrefix s k then Some (k, v) else None
      | Some (k', v') \<Rightarrow>
          if HasPrefix s k \<and> length k' < length k then Some (k, v) else Some (k', v'))"

text \<open>A goroutine started by \<^verbatim>\<open>deduceFromPath\<close>: the metadata fetch of the vanity
  stage, for a path.\<close>

datatype goroutine = metadataFetch string

text \<open>
  What a call of \<^verbatim>\<open>deduceFromPath\<close> returns: the three named results \<^verbatim>\<open>root\<close>,
  \<^verbatim>\<open>src\<close> and \<^verbatim>\<open>err\<close>, each \<open>None\<close> when nil, or a panic.
\<close>

datatype returned =
    Returned "futureString option" "deferredFutureSource option" "error option"
  | Panicked panic

text \<open>
  \<^verbatim>\<open>deduceFromPath\<close>, with the goroutines that the call has started. The call itself
  sends no request; only the goroutine \<open>metadataFetch\<close> does, when it runs. In the
  vanity stage the named result \<^verbatim>\<open>err\<close> still holds the error that
  \<^verbatim>\<open>exm.deduceRoot\<close> assigned to it in the \<^verbatim>\<open>if\<close> statement of line 524;
  nothing assigns it again before the bare \<^verbatim>\<open>return\<close> of line 606, which therefore
  returns the two futures together with that error.
\<close>

definition deduceFromPath :: "(string \<Rightarrow> error + url) \<Rightarrow> (string \<times> matcher) list \<Rightarrow> string
    \<Rightarrow> returned \<times> goroutine list" where
  "deduceFromPath parse rootxt path =
     (case normalizeURI parse path of
        Err err \<Rightarrow> (Returned None None (Some err), [])
      | Panic p \<Rightarrow> (Panicked p, [])
      | Ok u \<Rightarrow>
          (case LongestPrefix rootxt path of
             Some (k, mtch) \<Rightarrow>
               (case deduceRoot mtch path of
                  Err err \<Rightarrow> (Returned None None (Some err), [])
                | Panic p \<Rightarrow> (Panicked p, [])
                | Ok root \<Rightarrow>
                    (case deduceSource mtch path u of
                       Err err \<Rightarrow> (Returned None None (Some err), [])
                     | Panic p \<Rightarrow> (Panicked p, [])
                     | Ok src \<Rightarrow> (Returned (Some root) (Some src) None, [])))
           | None \<Rightarrow>
               (let exm = vcsExtensionMatcher vcsExtensionRegex in
                case deduceRoot exm path of
                  Ok root \<Rightarrow>
                    (case deduceSource exm path u of
                       Err err \<Rightarrow> (Returned None None (Some err), [])
                     | Panic p \<Rightarrow> (Panicked p, [])
                     | Ok src \<Rightarrow> (Returned (Some root) (Some src) None, []))
                | Panic p \<Rightarrow> (Panicked p, [])
                | Err err \<Rightarrow>
                    (Returned (Some metadataFuture) (Some vanityFutureSource) (Some err),
                     [metadataFetch path]))))"

subsection \<open>The goroutines and their futures\<close>

text \<open>
  The variables shared by the metadata goroutine and the closures of the vanity stage,
  with the channel \<^verbatim>\<open>c\<close>, which is closed when the goroutine returns.
\<close>

record rootVars =
  c_closed :: bool
  importroot :: string
  vcs :: string
  ru :: "url option"
  futerr :: "error option"

definition new_rootVars :: rootVars where
  "new_rootVars = \<lparr>c_closed = False, importroot = [], vcs = [], ru = None, futerr = None\<rparr>"

text \<open>The body of the goroutine \<open>metadataFetch path\<close>; the deferred \<^verbatim>\<open>close(c)\<close>
  runs on every return.\<close>

definition metadata_goroutine :: "('src, 'an) env \<Rightarrow> string \<Rightarrow> rootVars \<Rightarrow> world
    \<Rightarrow> rootVars \<times> world" where
  "metadata_goroutine env path rv w =
     (case parseMetadata env path w of
        ((importroot', vcs', reporoot, futerr'), w1) \<Rightarrow>
          (let rv1 = rv\<lparr>importroot := importroot', vcs := vcs', futerr := futerr'\<rparr> in
           if futerr rv1 \<noteq> None then
             (rv1\<lparr>futerr := Some (Errorf ''unable to deduce repository and source type for: %q''
                                     [S path]),
                  c_closed := True\<rparr>, w1)
           else
             (case url_Parse env reporoot of
                Inl err \<Rightarrow>
                  (rv1\<lparr>ru := None,
                       futerr := Some (Errorf ''server returned bad URL when searching for vanity import: %q''
                                         [S reporoot]),
                       importroot := [],
                       c_closed := True\<rparr>, w1)
              | Inr r \<Rightarrow> (rv1\<lparr>ru := Some r, futerr := None, c_closed := True\<rparr>, w1))))"

text \<open>
  Calling a future is a step of the state of its variables and the world: \<open>None\<close> when
  the call blocks on the open channel, else the pair that the closure returns.
\<close>

definition call_root :: "futureString \<Rightarrow> rootVars \<times> world
    \<Rightarrow> (string \<times> error option) option \<times> (rootVars \<times> world)" where
  "call_root root st =
     (case root of
        simpleStringFuture s \<Rightarrow> (Some (s, None), st)
      | metadataFuture \<Rightarrow>
          (if c_closed (fst st) then (Some (importroot (fst st), futerr (fst st)), st)
           else (None, st)))"

text \<open>The variables of one source future: \<^verbatim>\<open>src\<close>, \<^verbatim>\<open>err\<close> and the channel.\<close>

record 'src srcVars =
  sc_closed :: bool
  src :: "'src option"
  err :: "error option"

definition new_srcVars :: "'src srcVars" where
  "new_srcVars = \<lparr>sc_closed = False, src = None, err = None\<rparr>"

text \<open>The body of the goroutine of \<^verbatim>\<open>sourceFutureFactory(mb)(cachedir, an)\<close>.\<close>

definition try_goroutine :: "('src, 'an) env \<Rightarrow> maybeSource \<Rightarrow> string \<Rightarrow> 'an \<Rightarrow> 'src srcVars
    \<Rightarrow> world \<Rightarrow> 'src srcVars \<times> world" where
  "try_goroutine env mb cachedir an sv w =
     (case try_source env mb cachedir an of
        (src', err') \<Rightarrow>
          (sv\<lparr>src := src', err := err', sc_closed := True\<rparr>,
           w\<lparr>trylog := trylog w @ [(mb, cachedir)]\<rparr>))"

text \<open>
  The body of the goroutine of the vanity source factory (lines 574 to 598), \<open>None\<close>
  while \<^verbatim>\<open>root()\<close> blocks. The statement \<^verbatim>\<open>_, err := root()\<close> declares a new
  variable \<^verbatim>\<open>err\<close> in the body of the function literal; every later \<^verbatim>\<open>err\<close> of the
  body is that one (\<open>err_inner\<close>), and the variable \<^verbatim>\<open>err\<close> of the enclosing
  function, which the returned future reads, is never assigned.
\<close>

definition vanity_goroutine :: "('src, 'an) env \<Rightarrow> rootVars \<Rightarrow> string \<Rightarrow> 'an \<Rightarrow> 'src srcVars
    \<Rightarrow> world \<Rightarrow> ('src srcVars \<times> world) option" where
  "vanity_goroutine env rv cachedir an sv w =
     (case fst (call_root metadataFuture (rv, w)) of
        None \<Rightarrow> None
      | Some (root_value, err_inner) \<Rightarrow>
          Some (
            if err_inner \<noteq> None then (sv\<lparr>sc_closed := True\<rparr>, w)
            else
              let m = (if vcs rv = ''git'' then maybeGitSource (ru rv)
                       else if vcs rv = ''bzr'' then maybeBzrSource (ru rv)
                       else if vcs rv = ''hg'' then maybeHgSource (ru rv)
                       else nilSource)
              in if m \<noteq> nilSource then
                   (case try_source env m cachedir an of
                      (src', err_inner) \<Rightarrow>
                        (sv\<lparr>src := src', sc_closed := True\<rparr>,
                         w\<lparr>trylog := trylog w @ [(m, cachedir)]\<rparr>))
                 else
                   (let err_inner = Some (Errorf ''unsupported vcs type %s'' [S (vcs rv)])
                    in (sv\<lparr>sc_closed := True\<rparr>, w))))"

text \<open>Invoking a deferred source future starts one goroutine on fresh variables; the
  result is the state when that goroutine has returned.\<close>

definition run_source :: "('src, 'an) env \<Rightarrow> deferredFutureSource \<Rightarrow> rootVars \<Rightarrow> string \<Rightarrow> 'an
    \<Rightarrow> world \<Rightarrow> ('src srcVars \<times> world) option" where
  "run_source env f rv cachedir an w =
     (case f of
        sourceFutureFactory mb \<Rightarrow> Some (try_goroutine env mb cachedir an new_srcVars w)
      | vanityFutureSource \<Rightarrow> vanity_goroutine env rv cachedir an new_srcVars w)"

text \<open>The source future: \<^verbatim>\<open><-c; return src, err\<close>.\<close>

definition call_source :: "'src srcVars \<times> world
    \<Rightarrow> ('src option \<times> error option) option \<times> ('src srcVars \<times> world)" where
  "call_source st =
     (if sc_closed (fst st) then (Some (src (fst st), err (fst st)), st) else (None, st))"

subsection \<open>Kinds of candidates, repeated calls\<close>

fun isGit :: "maybeSource \<Rightarrow> bool" where
  "isGit (maybeGitSource u) = True"
| "isGit m = False"

fun isHg :: "maybeSource \<Rightarrow> bool" where
  "isHg (maybeHgSource u) = True"
| "isHg m = False"

text \<open>The numbers of the groups of a pattern.\<close>

fun grps :: "re \<Rightarrow> nat set" where
  "grps (Cat r1 r2) = grps r1 \<union> grps r2"
| "grps (Alt r1 r2) = grps r1 \<union> grps r2"
| "grps (Star r) = grps r"
| "grps (LazyStar r) = grps r"
| "grps (Grp i r) = insert i (grps r)"
| "grps r = {}"

text \<open>\<open>n\<close> calls of a future, one after the other: the values returned and the
  state after the last call.\<close>

fun repeat_call :: "('st \<Rightarrow> 'r \<times> 'st) \<Rightarrow> nat \<Rightarrow> 'st \<Rightarrow> 'r list \<times> 'st" where
  "repeat_call f 0 st = ([], st)"
| "repeat_call f (Suc n) st =
     (case f st of (r, st1) \<Rightarrow>
        (case repeat_call f n st1 of (rs, st2) \<Rightarrow> (r # rs, st2)))"

subsection \<open>Collaborators for the worked examples\<close>

text \<open>What \<^verbatim>\<open>url.Parse\<close> returns for a string without scheme, authority, query,
  fragment or escape: a URL whose only non-empty field is the path.\<close>

definition parse_plain :: "string \<Rightarrow> error + url" where
  "parse_plain s = Inr \<lparr>Scheme = [], User = None, Host = [], Path = s\<rparr>"

text \<open>Modelled from the spec: the registry behind \<^verbatim>\<open>sm.rootxt\<close> is built outside
  \<^verbatim>\<open>remote.go\<close>. The spec (section 4.3) keys it by the literal domain roots
  github.com, bitbucket.org, gopkg.in, launchpad.net, git.launchpad.net, hub.jazz.net
  and git.apache.org, each mapped to its matcher.\<close>

definition registry :: "(string \<times> matcher) list" where
  "registry =
     [(''github.com'', githubMatcher ghRegex),
      (''bitbucket.org'', bitbucketMatcher bbRegex),
      (''gopkg.in'', gopkginMatcher gpinNewRegex),
      (''launchpad.net'', launchpadMatcher lpRegex),
      (''git.launchpad.net'', launchpadGitMatcher glpRegex),
      (''hub.jazz.net'', jazzMatcher jazzRegex),
      (''git.apache.org'', apacheMatcher apacheRegex)]"

text \<open>An environment in which no host can be reached.\<close>

definition unreachable :: "(unit, unit) env" where
  "unreachable =
     \<lparr>url_Parse = parse_plain,
      http_Get = (\<lambda>url. Inl (External ''no route to host'')),
      parseMetaGoImports = (\<lambda>rc. Inr []),
      try_source = (\<lambda>m cachedir an. (None, Some (External ''no route to host'')))\<rparr>"

definition quiet :: world where
  "quiet = \<lparr>netlog = [], trylog = []\<rparr>"


section \<open>Properties\<close>

subsection \<open>Matching: registers and loops\<close>

text \<open>The equations of the two stars rewrite their own right-hand side; they are
  unfolded by hand.\<close>

declare ms.simps(8) [simp del]
declare ms.simps(9) [simp del]

lemma in_ms_Cat:
  "(s', c') \<in> set (ms (Cat r1 r2) inp s c) \<longleftrightarrow>
   (\<exists>s1 c1. (s1, c1) \<in> set (ms r1 inp s c) \<and> (s', c') \<in> set (ms r2 inp s1 c1))"
  by auto

lemma in_ms_Star:
  "(s', c') \<in> set (ms (Star r) inp s c) \<longleftrightarrow>
   (s', c') = (s, c) \<or>
   (\<exists>s1 c1. (s1, c1) \<in> set (ms r inp s c) \<and> length s1 < length s \<and>
      (s', c') \<in> set (ms (Star r) inp s1 c1))"
  by (subst ms.simps(8)) (auto split: if_splits)

lemma in_ms_LazyStar:
  "(s', c') \<in> set (ms (LazyStar r) inp s c) \<longleftrightarrow>
   (s', c') = (s, c) \<or>
   (\<exists>s1 c1. (s1, c1) \<in> set (ms r inp s c) \<and> length s1 < length s \<and>
      (s', c') \<in> set (ms (LazyStar r) inp s1 c1))"
  by (subst ms.simps(9)) (auto split: if_splits)

lemma in_ms_Grp:
  "(s', c') \<in> set (ms (Grp i r) inp s c) \<longleftrightarrow>
   (\<exists>c1. (s', c1) \<in> set (ms r inp s c) \<and> c' = c1[i := take (length s - length s') s])"
  by auto

lemma ms_length: "(s', c') \<in> set (ms r inp s c) \<Longrightarrow> length c' = length c"
proof (induction r inp s c arbitrary: s' c' rule: ms.induct)
  case (6 r1 r2 inp s c)
  then show ?case unfolding in_ms_Cat by fastforce
next
  case (8 r inp s c)
  from "8.prems" show ?case
    unfolding in_ms_Star[of s' c' r inp s c] using "8.IH" by fastforce
next
  case (9 r inp s c)
  from "9.prems" show ?case
    unfolding in_ms_LazyStar[of s' c' r inp s c] using "9.IH" by fastforce
next
  case (10 i r inp s c)
  then show ?case unfolding in_ms_Grp by fastforce
qed (auto split: if_splits option.splits list.splits)

lemma find_from_length: "find_from r n inp s = Some v \<Longrightarrow> length v = Suc n"
proof (induction s)
  case Nil
  then obtain s' rest where "ms (Grp 0 r) inp [] (replicate (Suc n) []) = (s', v) # rest"
    by (auto split: list.splits)
  then have "(s', v) \<in> set (ms (Grp 0 r) inp [] (replicate (Suc n) []))" by simp
  from ms_length[OF this] show ?case by simp
next
  case (Cons x xs)
  show ?case
  proof (cases "ms (Grp 0 r) inp (x # xs) (replicate (Suc n) [])")
    case Nil
    with Cons show ?thesis by simp
  next
    case (Cons a rest)
    obtain s' c where a: "a = (s', c)" by (cases a)
    with Cons Cons.prems have "c = v" by simp
    with Cons a have "(s', v) \<in> set (ms (Grp 0 r) inp (x # xs) (replicate (Suc n) []))" by simp
    from ms_length[OF this] show ?thesis by simp
  qed
qed

lemma FindStringSubmatch_length:
  "FindStringSubmatch r s = Some v \<Longrightarrow> length v = Suc (ngroups r)"
  unfolding FindStringSubmatch_def by (rule find_from_length)

lemma ngroups_Plus [simp]: "ngroups (Plus r) = ngroups r" by (simp add: Plus_def)
lemma ngroups_Opt [simp]: "ngroups (Opt r) = ngroups r" by (simp add: Opt_def)
lemma ngroups_Rep02 [simp]: "ngroups (Rep02 r) = ngroups r" by (simp add: Rep02_def)

lemma ngroups_gpin: "ngroups gpinNewRegex = 6" by (simp add: gpinNewRegex_def)
lemma ngroups_bb: "ngroups bbRegex = 3" by (simp add: bbRegex_def subpath_def)
lemma ngroups_vcs: "ngroups vcsExtensionRegex = 6" by (simp add: vcsExtensionRegex_def subpath_def)
lemma ngroups_scp: "ngroups scpSyntaxRe = 3" by (simp add: scpSyntaxRe_def)

lemma fill_map:
  "k + length ss \<le> length mb \<Longrightarrow>
   fill mk u mb k ss = Ok (take k mb @ map (\<lambda>scheme. mk (Some (u\<lparr>Scheme := scheme\<rparr>))) ss @ drop (k + length ss) mb)"
proof (induction ss arbitrary: mb k)
  case Nil
  then show ?case by simp
next
  case (Cons a ss)
  then show ?case
    by (simp add: take_Suc_conv_app_nth upd_conv_take_nth_drop add.commute)
qed

lemma fill_make:
  "fill mk u (make_maybeSources (length ss)) 0 ss = Ok (map (\<lambda>scheme. mk (Some (u\<lparr>Scheme := scheme\<rparr>))) ss)"
  using fill_map[of 0 ss "make_maybeSources (length ss)" mk u] by (simp add: make_maybeSources_def)

lemma append_all_map:
  "append_all mk u mb ss = mb @ map (\<lambda>scheme. mk (Some (u\<lparr>Scheme := scheme\<rparr>))) ss"
  unfolding append_all_def by (induction ss arbitrary: mb) auto

lemma strip_prefix_Some: "strip_prefix p s = Some s' \<longleftrightarrow> s = p @ s'"
  by (induction p s rule: strip_prefix.induct) auto

lemma in_ms_Str:
  "(s', c') \<in> set (ms (Str p) inp s c) \<longleftrightarrow> s = p @ s' \<and> c' = c"
proof -
  have "(s', c') \<in> set (ms (Str p) inp s c) \<longleftrightarrow> strip_prefix p s = Some s' \<and> c' = c"
    by (cases "strip_prefix p s") auto
  then show ?thesis by (simp add: strip_prefix_Some)
qed

lemma in_ms_Cls:
  "(s', c') \<in> set (ms (Cls k) inp s c) \<longleftrightarrow> (\<exists>x. s = x # s' \<and> in_cls x k) \<and> c' = c"
  by (auto split: list.splits if_splits)

lemma in_ms_Alt:
  "(s', c') \<in> set (ms (Alt r1 r2) inp s c) \<longleftrightarrow>
   (s', c') \<in> set (ms r1 inp s c) \<or> (s', c') \<in> set (ms r2 inp s c)"
  by simp

lemma ms_suffix: "(s', c') \<in> set (ms r inp s c) \<Longrightarrow> \<exists>p. s = p @ s'"
proof (induction r inp s c arbitrary: s' c' rule: ms.induct)
  case (4 p inp s c)
  then show ?case unfolding in_ms_Str by blast
next
  case (5 k inp s c)
  then show ?case unfolding in_ms_Cls by (metis append_Cons append_Nil)
next
  case (6 r1 r2 inp s c)
  from "6.prems" obtain s1 c1 where a: "(s1, c1) \<in> set (ms r1 inp s c)"
    and b: "(s', c') \<in> set (ms r2 inp s1 c1)" unfolding in_ms_Cat by blast
  from "6.IH"(1)[OF a] obtain p1 where "s = p1 @ s1" by blast
  moreover from "6.IH"(2)[OF a _ b] obtain p2 where "s1 = p2 @ s'" by auto
  ultimately show ?case by (metis append.assoc)
next
  case (8 r inp s c)
  from "8.prems" consider "(s', c') = (s, c)"
    | s1 c1 where "(s1, c1) \<in> set (ms r inp s c)" "length s1 < length s"
        "(s', c') \<in> set (ms (Star r) inp s1 c1)"
    unfolding in_ms_Star[of s' c' r inp s c] by blast
  then show ?case
  proof cases
    case 1
    then show ?thesis by simp
  next
    case 2
    from "8.IH"(1)[OF 2(1)] obtain p1 where "s = p1 @ s1" by blast
    moreover from "8.IH"(2)[OF 2(1) _ 2(2) 2(3)] obtain p2 where "s1 = p2 @ s'" by auto
    ultimately show ?thesis by (metis append.assoc)
  qed
next
  case (9 r inp s c)
  from "9.prems" consider "(s', c') = (s, c)"
    | s1 c1 where "(s1, c1) \<in> set (ms r inp s c)" "length s1 < length s"
        "(s', c') \<in> set (ms (LazyStar r) inp s1 c1)"
    unfolding in_ms_LazyStar[of s' c' r inp s c] by blast
  then show ?case
  proof cases
    case 1
    then show ?thesis by simp
  next
    case 2
    from "9.IH"(1)[OF 2(1)] obtain p1 where "s = p1 @ s1" by blast
    moreover from "9.IH"(2)[OF 2(1) _ 2(2) 2(3)] obtain p2 where "s1 = p2 @ s'" by auto
    ultimately show ?thesis by (metis append.assoc)
  qed
next
  case (10 i r inp s c)
  then show ?case unfolding in_ms_Grp by blast
qed (auto split: if_splits)

lemma ms_keeps:
  "(s', c') \<in> set (ms r inp s c) \<Longrightarrow> i \<notin> grps r \<Longrightarrow> c' ! i = c ! i"
proof (induction r inp s c arbitrary: s' c' rule: ms.induct)
  case (6 r1 r2 inp s c)
  from "6.prems" obtain s1 c1 where a: "(s1, c1) \<in> set (ms r1 inp s c)"
    and b: "(s', c') \<in> set (ms r2 inp s1 c1)" unfolding in_ms_Cat by blast
  from "6.IH"(1)[OF a] "6.prems"(2) have "c1 ! i = c ! i" by simp
  moreover from "6.IH"(2)[OF a _ b] "6.prems"(2) have "c' ! i = c1 ! i" by simp
  ultimately show ?case by simp
next
  case (8 r inp s c)
  from "8.prems" consider "(s', c') = (s, c)"
    | s1 c1 where "(s1, c1) \<in> set (ms r inp s c)" "length s1 < length s"
        "(s', c') \<in> set (ms (Star r) inp s1 c1)"
    unfolding in_ms_Star[of s' c' r inp s c] by blast
  then show ?case
  proof cases
    case 1
    then show ?thesis by simp
  next
    case 2
    from "8.IH"(1)[OF 2(1)] "8.prems"(2) have "c1 ! i = c ! i" by simp
    moreover from "8.IH"(2)[OF 2(1) _ 2(2) 2(3)] "8.prems"(2) have "c' ! i = c1 ! i" by simp
    ultimately show ?thesis by simp
  qed
next
  case (9 r inp s c)
  from "9.prems" consider "(s', c') = (s, c)"
    | s1 c1 where "(s1, c1) \<in> set (ms r inp s c)" "length s1 < length s"
        "(s', c') \<in> set (ms (LazyStar r) inp s1 c1)"
    unfolding in_ms_LazyStar[of s' c' r inp s c] by blast
  then show ?case
  proof cases
    case 1
    then show ?thesis by simp
  next
    case 2
    from "9.IH"(1)[OF 2(1)] "9.prems"(2) have "c1 ! i = c ! i" by simp
    moreover from "9.IH"(2)[OF 2(1) _ 2(2) 2(3)] "9.prems"(2) have "c' ! i = c1 ! i" by simp
    ultimately show ?thesis by simp
  qed
next
  case (10 j r inp s c)
  from "10.prems" obtain c1 where a: "(s', c1) \<in> set (ms r inp s c)"
    and b: "c' = c1[j := take (length s - length s') s]" unfolding in_ms_Grp by blast
  from "10.IH"[OF a] "10.prems"(2) have "c1 ! i = c ! i" by simp
  with b "10.prems"(2) show ?case by simp
qed (auto split: if_splits option.splits list.splits)

text \<open>A group records the text that its body consumed.\<close>

lemma in_ms_Grp_text:
  "(s', c') \<in> set (ms (Grp i r) inp s c) \<longleftrightarrow>
   (\<exists>c1 p. (s', c1) \<in> set (ms r inp s c) \<and> s = p @ s' \<and> c' = c1[i := p])"
proof
  assume "(s', c') \<in> set (ms (Grp i r) inp s c)"
  then obtain c1 where a: "(s', c1) \<in> set (ms r inp s c)"
    and b: "c' = c1[i := take (length s - length s') s]" unfolding in_ms_Grp by blast
  from ms_suffix[OF a] obtain p where "s = p @ s'" by blast
  with a b show "\<exists>c1 p. (s', c1) \<in> set (ms r inp s c) \<and> s = p @ s' \<and> c' = c1[i := p]"
    by auto
next
  assume "\<exists>c1 p. (s', c1) \<in> set (ms r inp s c) \<and> s = p @ s' \<and> c' = c1[i := p]"
  then show "(s', c') \<in> set (ms (Grp i r) inp s c)" unfolding in_ms_Grp by auto
qed

text \<open>What \<open>find_from\<close> returns is the registers of some match of the whole pattern.\<close>

lemma find_from_result:
  "find_from r n inp s = Some v \<Longrightarrow>
   \<exists>s0 s'. (s', v) \<in> set (ms (Grp 0 r) inp s0 (replicate (Suc n) []))"
proof (induction s)
  case Nil
  then obtain s' rest where "ms (Grp 0 r) inp [] (replicate (Suc n) []) = (s', v) # rest"
    by (auto split: list.splits)
  then have "(s', v) \<in> set (ms (Grp 0 r) inp [] (replicate (Suc n) []))" by simp
  then show ?case by blast
next
  case (Cons x xs)
  show ?case
  proof (cases "ms (Grp 0 r) inp (x # xs) (replicate (Suc n) [])")
    case Nil
    with Cons show ?thesis by simp
  next
    case (Cons a rest)
    obtain s' c where a: "a = (s', c)" by (cases a)
    with Cons Cons.prems have "c = v" by simp
    with Cons a have "(s', v) \<in> set (ms (Grp 0 r) inp (x # xs) (replicate (Suc n) []))" by simp
    then show ?thesis by blast
  qed
qed

lemma FindStringSubmatch_result:
  assumes "FindStringSubmatch r s = Some v"
  shows "\<exists>s0 s' c0 cf p. length c0 = Suc (ngroups r) \<and> (s', cf) \<in> set (ms r s s0 c0)
           \<and> v = cf[0 := p]"
proof -
  from assms obtain s0 s' where
    "(s', v) \<in> set (ms (Grp 0 r) s s0 (replicate (Suc (ngroups r)) []))"
    unfolding FindStringSubmatch_def using find_from_result by blast
  then obtain cf where "(s', cf) \<in> set (ms r s s0 (replicate (Suc (ngroups r)) []))"
    and "v = cf[0 := take (length s0 - length s') s0]"
    unfolding in_ms_Grp by blast
  moreover have "length (replicate (Suc (ngroups r)) ([]::string)) = Suc (ngroups r)" by simp
  ultimately show ?thesis by blast
qed


lemma in_ms_Bol:
  "(s', c') \<in> set (ms Bol inp s c) \<longleftrightarrow> length s = length inp \<and> s' = s \<and> c' = c"
  by auto

lemma in_ms_Eol:
  "(s', c') \<in> set (ms Eol inp s c) \<longleftrightarrow> s = [] \<and> s' = [] \<and> c' = c"
  by auto

lemma in_ms_Eps:
  "(s', c') \<in> set (ms Eps inp s c) \<longleftrightarrow> s' = s \<and> c' = c"
  by auto

lemma ms_Plus_Cls_shorter:
  assumes "(s', c') \<in> set (ms (Plus (Cls k)) inp s c)"
  shows "length s' < length s"
proof -
  from assms obtain s1 c1 where a: "(s1, c1) \<in> set (ms (Cls k) inp s c)"
    and b: "(s', c') \<in> set (ms (Star (Cls k)) inp s1 c1)"
    unfolding Plus_def in_ms_Cat by blast
  from a have "length s = Suc (length s1)" unfolding in_ms_Cls by auto
  moreover from ms_suffix[OF b] have "length s' \<le> length s1" by auto
  ultimately show ?thesis by simp
qed

lemma grps_Plus [simp]: "grps (Plus r) = grps r" by (simp add: Plus_def)
lemma grps_Opt [simp]: "grps (Opt r) = grps r" by (simp add: Opt_def)

lemma scp_host_nonempty:
  assumes m: "FindStringSubmatch scpSyntaxRe path = Some v"
  shows "v ! 2 \<noteq> []"
proof -
  from FindStringSubmatch_result[OF m] obtain s0 s' c0 cf p0 where
    len0: "length c0 = 4" and f: "(s', cf) \<in> set (ms scpSyntaxRe path s0 c0)"
    and v: "v = cf[0 := p0]"
    unfolding ngroups_scp by auto
  define A where "A = Grp 1 (Plus (Cls [lower, upper, digit, lit CHR ''_'']))"
  define B where "B = Plus (Cls [lower, upper, digit, lit CHR ''.'', lit CHR ''_'', lit CHR ''-''])"
  define C where "C = Cat (Str '':'') (Cat (Grp 3 (Star (Cls [(CHR 0x00, CHR 0x09), (CHR 0x0B, CHR 0xFF)]))) Eol)"
  have re: "scpSyntaxRe = Cat Bol (Cat A (Cat (Str ''@'') (Cat (Grp 2 B) C)))"
    by (simp add: scpSyntaxRe_def A_def B_def C_def)
  from f obtain s2 c2 s3 c3 s4 c4 where
    a: "(s2, c2) \<in> set (ms A path s0 c0)"
    and at: "(s3, c3) \<in> set (ms (Str ''@'') path s2 c2)"
    and b: "(s4, c4) \<in> set (ms (Grp 2 B) path s3 c3)"
    and c: "(s', cf) \<in> set (ms C path s4 c4)"
    unfolding re in_ms_Cat in_ms_Bol by blast
  from b obtain c4' p where b': "(s4, c4') \<in> set (ms B path s3 c3)"
    and p: "s3 = p @ s4" and c4: "c4 = c4'[2 := p]"
    unfolding in_ms_Grp_text by blast
  from ms_Plus_Cls_shorter[OF b'[unfolded B_def]] p have "p \<noteq> []" by auto
  have len: "length c4' = 4"
    using ms_length[OF a] ms_length[OF at] ms_length[OF b'] len0 by simp
  have "cf ! 2 = c4 ! 2" using ms_keeps[OF c, of 2] by (simp add: C_def)
  with c4 len have "cf ! 2 = p" by simp
  with v \<open>p \<noteq> []\<close> show ?thesis by simp
qed


lemma grps_subpath [simp]: "grps (subpath i) = {i}"
  by (simp add: subpath_def)

lemma vcs_regs:
  assumes m: "FindStringSubmatch vcsExtensionRegex path = Some v"
  shows "v ! 5 \<in> {''bzr'', ''git'', ''hg'', ''svn''}"
    and "\<exists>a b. v ! 1 = a @ ''/'' @ b"
proof -
  define H1 where "H1 = Plus (Grp 3 (Cat (Plus (Cls hostcls)) (Str ''.'')))"
  define H2 where "H2 = Plus (Cls hostcls)"
  define P where "P = Opt (Grp 4 (Cat (Str '':'') (Plus (Cls [digit]))))"
  define L where "L = LazyStar (Cls [upper, lower, digit, lit CHR ''_'', lit CHR ''.'',
                                   lit CHR ''-'', lit CHR ''/'', lit CHR ''~''])"
  define X where "X = Cat H1 (Cat H2 (Cat P (Cat (Str ''/'') L)))"
  define ALT where "ALT = Alt (Str ''bzr'') (Alt (Str ''git'') (Alt (Str ''hg'') (Str ''svn'')))"
  define G where "G = Cat (Grp 2 X) (Cat (Str ''.'') (Grp 5 ALT))"
  define T where "T = Cat (subpath 6) Eol"
  have re: "vcsExtensionRegex = Cat Bol (Cat (Grp 1 G) T)"
    by (simp add: vcsExtensionRegex_def G_def X_def ALT_def T_def H1_def H2_def P_def L_def)
  from FindStringSubmatch_result[OF m] obtain s0 s' c0 cf p0 where
    len0: "length c0 = 7" and f: "(s', cf) \<in> set (ms vcsExtensionRegex path s0 c0)"
    and v: "v = cf[0 := p0]"
    unfolding ngroups_vcs by auto
  from f obtain s1 c1 where g1: "(s1, c1) \<in> set (ms (Grp 1 G) path s0 c0)"
    and t: "(s', cf) \<in> set (ms T path s1 c1)"
    unfolding re in_ms_Cat in_ms_Bol by blast
  from g1 obtain c1' p1 where g: "(s1, c1') \<in> set (ms G path s0 c0)"
    and p1: "s0 = p1 @ s1" and c1: "c1 = c1'[1 := p1]"
    unfolding in_ms_Grp_text by blast
  from g obtain sa ca sb where g2: "(sa, ca) \<in> set (ms (Grp 2 X) path s0 c0)"
    and dot: "sa = ''.'' @ sb" and g5: "(s1, c1') \<in> set (ms (Grp 5 ALT) path sb ca)"
    unfolding G_def in_ms_Cat in_ms_Str by blast
  from g5 obtain c5 p5 where alt: "(s1, c5) \<in> set (ms ALT path sb ca)"
    and p5: "sb = p5 @ s1" and c1': "c1' = c5[5 := p5]"
    unfolding in_ms_Grp_text by blast
  from alt p5 have p5_in: "p5 \<in> {''bzr'', ''git'', ''hg'', ''svn''}"
    unfolding ALT_def in_ms_Alt in_ms_Str by auto
  from g2 obtain ca' p2 where x: "(sa, ca') \<in> set (ms X path s0 c0)"
    and p2: "s0 = p2 @ sa" and ca: "ca = ca'[2 := p2]"
    unfolding in_ms_Grp_text by blast
  from x obtain x1 d1 x2 d2 x3 d3 x4 where
    h1: "(x1, d1) \<in> set (ms H1 path s0 c0)"
    and h2: "(x2, d2) \<in> set (ms H2 path x1 d1)"
    and h3: "(x3, d3) \<in> set (ms P path x2 d2)"
    and sl: "x3 = ''/'' @ x4"
    and l: "(sa, ca') \<in> set (ms L path x4 d3)"
    unfolding X_def in_ms_Cat in_ms_Str by blast
  from ms_suffix[OF h1] obtain q1 where q1: "s0 = q1 @ x1" by blast
  from ms_suffix[OF h2] obtain q2 where q2: "x1 = q2 @ x2" by blast
  from ms_suffix[OF h3] obtain q3 where q3: "x2 = q3 @ x3" by blast
  from ms_suffix[OF l] obtain q5 where q5: "x4 = q5 @ sa" by blast
  from q1 q2 q3 sl q5 p2 have "p2 @ sa = (q1 @ q2 @ q3 @ ''/'' @ q5) @ sa" by simp
  then have p2_eq: "p2 = q1 @ q2 @ q3 @ ''/'' @ q5" by (rule iffD1[OF append_same_eq])
  from p1 p2 dot p5 have "p1 @ s1 = (p2 @ ''.'' @ p5) @ s1" by simp
  then have p1_eq: "p1 = p2 @ ''.'' @ p5" by (rule iffD1[OF append_same_eq])
  have len5: "length c5 = 7"
    using ms_length[OF alt] ca ms_length[OF x] len0 by simp
  have keep: "cf ! 5 = c1 ! 5" "cf ! 1 = c1 ! 1"
    using ms_keeps[OF t, of 5] ms_keeps[OF t, of 1] by (simp_all add: T_def)
  from keep(1) c1 c1' len5 have "cf ! 5 = p5" by simp
  with v p5_in show "v ! 5 \<in> {''bzr'', ''git'', ''hg'', ''svn''}" by simp
  from keep(2) c1 c1' len5 have "cf ! 1 = p1" by simp
  with v have "v ! 1 = p1" by simp
  with p1_eq p2_eq have "v ! 1 = (q1 @ q2 @ q3) @ ''/'' @ (q5 @ ''.'' @ p5)" by simp
  then show "\<exists>a b. v ! 1 = a @ ''/'' @ b" by blast
qed

lemma Index_found: "0 \<le> Index (a @ sub @ b) sub"
proof (induction a)
  case Nil
  have "strip_prefix sub (sub @ b) = Some b" by (simp add: strip_prefix_Some)
  then show ?case by (cases "sub @ b") auto
next
  case (Cons x a)
  then show ?case by (simp add: Let_def)
qed

lemma SplitN_2_found: "\<exists>x0 x1. SplitN_2 (a @ sub @ b) sub = [x0, x1]"
  using Index_found[of a sub b] by (simp add: SplitN_2_def Let_def)

lemma Index_char:
  "0 \<le> Index s [c] \<Longrightarrow>
   s = take (nat (Index s [c])) s @ [c] @ drop (nat (Index s [c]) + 1) s
   \<and> c \<notin> set (take (nat (Index s [c])) s)"
proof (induction s)
  case Nil
  then show ?case by simp
next
  case (Cons x xs)
  show ?case
  proof (cases "x = c")
    case True
    then show ?thesis by simp
  next
    case False
    with Cons.prems have i: "0 \<le> Index xs [c]" and e: "Index (x # xs) [c] = Index xs [c] + 1"
      by (auto simp: Let_def split: if_splits)
    from i have n: "nat (Index xs [c] + 1) = Suc (nat (Index xs [c]))" by simp
    from Cons.IH[OF i] False show ?thesis unfolding e n by simp
  qed
qed

lemma SplitN_2_char:
  assumes "SplitN_2 s [c] = [x0, x1]"
  shows "s = x0 @ [c] @ x1 \<and> c \<notin> set x0"
proof -
  from assms have i: "0 \<le> Index s [c]"
    by (auto simp: SplitN_2_def Let_def split: if_splits)
  with assms have "x0 = take (nat (Index s [c])) s" "x1 = drop (nat (Index s [c]) + 1) s"
    by (auto simp: SplitN_2_def Let_def split: if_splits)
  with Index_char[OF i] show ?thesis by simp
qed

subsection \<open>The matchers on a matched path\<close>

lemma at_nth: "i < length xs \<Longrightarrow> at xs i = Ok (xs ! i)"
  by (simp add: at_def)

lemma gpin_regs:
  assumes "FindStringSubmatch gpinNewRegex path = Some v"
  shows "at v 2 = Ok (v ! 2)" "at v 3 = Ok (v ! 3)" "at v 4 = Ok (v ! 4)"
  using FindStringSubmatch_length[OF assms] by (simp_all add: ngroups_gpin at_nth)

lemma bb_regs:
  assumes "FindStringSubmatch bbRegex path = Some v"
  shows "at v 2 = Ok (v ! 2)"
  using FindStringSubmatch_length[OF assms] by (simp add: ngroups_bb at_nth)

lemma validate_git: "validateVCSScheme s ''git'' = Ok (s \<in> set gitSchemes)"
  by (simp add: validateVCSScheme_def)

lemma validate_hg: "validateVCSScheme s ''hg'' = Ok (s \<in> set hgSchemes)"
  by (simp add: validateVCSScheme_def)

lemma TrimPrefix_slash: "TrimPrefix (''/'' @ s) ''/'' = s"
  by (simp add: TrimPrefix_def)

lemma scp_regs:
  assumes "FindStringSubmatch scpSyntaxRe path = Some v"
  shows "at v (Suc 0) = Ok (v ! 1)" "at v 2 = Ok (v ! 2)" "at v 3 = Ok (v ! 3)"
  using FindStringSubmatch_length[OF assms] by (simp_all add: ngroups_scp at_nth)

lemma vcs_at:
  assumes "FindStringSubmatch vcsExtensionRegex path = Some v"
  shows "at v (Suc 0) = Ok (v ! 1)" "at v 5 = Ok (v ! 5)"
  using FindStringSubmatch_length[OF assms] by (simp_all add: ngroups_vcs at_nth)

lemma vcs_split:
  assumes m: "FindStringSubmatch vcsExtensionRegex path = Some v"
  shows "\<exists>x0 x1. SplitN_2 (v ! 1) ''/'' = [x0, x1]"
proof -
  from vcs_regs(2)[OF m] obtain a b where "v ! 1 = a @ ''/'' @ b" by blast
  then show ?thesis using SplitN_2_found[of a "''/''" b] by simp
qed

lemma at_pair: "at [x0, x1] 0 = Ok x0" "at [x0, x1] (Suc 0) = Ok x1"
  by (simp_all add: at_def)

lemma fill_short:
  "fill mk u (make_maybeSources (length hgSchemes)) 0 gitSchemes = Panic (IndexOutOfRange 3 3)"
  by (simp add: make_maybeSources_def gitSchemes_def hgSchemes_def numeral_eq_Suc)

lemma fill_bzr:
  "fill mk u (make_maybeSources (length bzrSchemes)) 0 gitSchemes
     = Ok (map (\<lambda>scheme. mk (Some (u\<lparr>Scheme := scheme\<rparr>))) gitSchemes)"
proof -
  have "length bzrSchemes = length gitSchemes" by (simp add: bzrSchemes_def gitSchemes_def)
  then show ?thesis by (simp add: fill_make)
qed

lemma validate_cases:
  "validateVCSScheme s ''git'' = Ok (s \<in> set gitSchemes)"
  "validateVCSScheme s ''hg'' = Ok (s \<in> set hgSchemes)"
  "validateVCSScheme s ''bzr'' = Ok (s \<in> set bzrSchemes)"
  by (simp_all add: validateVCSScheme_def)

text \<open>The generic matcher on a matched path, kind by kind.\<close>

lemma vcs_git:
  assumes m: "FindStringSubmatch vcsExtensionRegex path = Some v"
    and k: "v ! 5 = ''git''" and x: "SplitN_2 (v ! 1) ''/'' = [x0, x1]"
  shows "vcsExtensionMatcher_deduceSource vcsExtensionRegex path u =
    (if Scheme u \<noteq> [] then
       (if Scheme u \<in> set gitSchemes
        then Ok (sourceFutureFactory (maybeGitSource (Some (u\<lparr>Host := x0, Path := x1\<rparr>))))
        else Err (Errorf ''%s is not a valid scheme for accessing %s repositories (path %s)''
                    [S (Scheme u), S ''git'', S path]))
     else Ok (sourceFutureFactory (maybeSources
            (map (\<lambda>scheme. maybeGitSource (Some (u\<lparr>Host := x0, Path := x1, Scheme := scheme\<rparr>)))
                 gitSchemes))))"
proof -
  from x have x': "SplitN_2 (v ! Suc 0) ''/'' = [x0, x1]" by simp
  show ?thesis
    by (simp add: vcsExtensionMatcher_deduceSource_def m vcs_at[OF m] k x' at_pair fill_make
          validate_cases)
qed

lemma vcs_hg:
  assumes m: "FindStringSubmatch vcsExtensionRegex path = Some v"
    and k: "v ! 5 = ''hg''" and x: "SplitN_2 (v ! 1) ''/'' = [x0, x1]"
  shows "vcsExtensionMatcher_deduceSource vcsExtensionRegex path u =
    (if Scheme u \<noteq> [] then
       (if Scheme u \<in> set hgSchemes
        then Ok (sourceFutureFactory (maybeHgSource (Some (u\<lparr>Host := x0, Path := x1\<rparr>))))
        else Err (Errorf ''%s is not a valid scheme for accessing %s repositories (path %s)''
                    [S (Scheme u), S ''hg'', S path]))
     else Panic (IndexOutOfRange 3 3))"
proof -
  from x have x': "SplitN_2 (v ! Suc 0) ''/'' = [x0, x1]" by simp
  show ?thesis
    by (simp add: vcsExtensionMatcher_deduceSource_def m vcs_at[OF m] k x' at_pair fill_short
          validate_cases)
qed

lemma vcs_bzr:
  assumes m: "FindStringSubmatch vcsExtensionRegex path = Some v"
    and k: "v ! 5 = ''bzr''" and x: "SplitN_2 (v ! 1) ''/'' = [x0, x1]"
  shows "vcsExtensionMatcher_deduceSource vcsExtensionRegex path u =
    (if Scheme u \<noteq> [] then
       (if Scheme u \<in> set bzrSchemes
        then Ok (sourceFutureFactory (maybeBzrSource (Some (u\<lparr>Host := x0, Path := x1\<rparr>))))
        else Err (Errorf ''%s is not a valid scheme for accessing %s repositories (path %s)''
                    [S (Scheme u), S ''bzr'', S path]))
     else Ok (sourceFutureFactory (maybeSources
            (map (\<lambda>scheme. maybeBzrSource (Some (u\<lparr>Host := x0, Path := x1, Scheme := scheme\<rparr>)))
                 gitSchemes))))"
proof -
  from x have x': "SplitN_2 (v ! Suc 0) ''/'' = [x0, x1]" by simp
  show ?thesis
    by (simp add: vcsExtensionMatcher_deduceSource_def m vcs_at[OF m] k x' at_pair fill_bzr
          validate_cases)
qed

lemma vcs_svn:
  assumes m: "FindStringSubmatch vcsExtensionRegex path = Some v" and k: "v ! 5 = ''svn''"
  shows "vcsExtensionMatcher_deduceSource vcsExtensionRegex path u =
           Err (Errorf ''unknown repository type: %q'' [S ''svn''])"
  by (simp add: vcsExtensionMatcher_deduceSource_def m vcs_at[OF m] k)

subsection \<open>The goroutines\<close>

lemma repeat_call_fixed:
  "f st = (r, st) \<Longrightarrow> repeat_call f n st = (replicate n r, st)"
  by (induction n) auto

lemma metadata_goroutine_closes: "c_closed (fst (metadata_goroutine env path rv w))"
  by (auto simp: metadata_goroutine_def Let_def split: prod.splits sum.splits)

lemma try_goroutine_closes: "sc_closed (fst (try_goroutine env mb cachedir an sv w))"
  by (auto simp: try_goroutine_def split: prod.splits)

lemma vanity_goroutine_closes:
  "c_closed rv \<Longrightarrow>
   \<exists>st. vanity_goroutine env rv cachedir an sv w = Some st \<and> sc_closed (fst st)"
  by (auto simp: vanity_goroutine_def call_root_def Let_def split: prod.splits)

lemma call_root_closed:
  "c_closed (fst st) \<Longrightarrow>
   call_root metadataFuture st = (Some (importroot (fst st), futerr (fst st)), st)"
  by (simp add: call_root_def)

lemma call_source_closed:
  "sc_closed (fst st) \<Longrightarrow> call_source st = (Some (src (fst st), err (fst st)), st)"
  by (simp add: call_source_def)

lemma vanity_source_after_root_error:
  "c_closed rv \<Longrightarrow> futerr rv = Some e \<Longrightarrow>
   vanity_goroutine env rv cachedir an sv w = Some (sv\<lparr>sc_closed := True\<rparr>, w)"
  by (simp add: vanity_goroutine_def call_root_def)

subsection \<open>Claims\<close>

text \<open>
  C1 (the code departs from the claim). The claim: for every path accepted by the
  gopkg.in pattern, \<^verbatim>\<open>deduceRoot\<close> returns \<^verbatim>\<open>gopkg.in/\<close> followed by the whole
  matched root, so that \<^verbatim>\<open>gopkg.in/yaml.v2\<close> has the root \<^verbatim>\<open>gopkg.in/yaml.v2\<close>.
  The method returns \<^verbatim>\<open>"gopkg.in/" + v[2]\<close>, and the second register of this pattern
  is the optional user segment: the root of \<^verbatim>\<open>gopkg.in/yaml.v2\<close> comes out as
  \<^verbatim>\<open>gopkg.in/\<close> and that of \<^verbatim>\<open>gopkg.in/user/pkg.v1\<close> as \<^verbatim>\<open>gopkg.in/user\<close>.
\<close>

theorem gopkgin_deduceRoot_loses_package:
  "deduceRoot (gopkginMatcher gpinNewRegex) ''gopkg.in/yaml.v2''
     = Ok (simpleStringFuture ''gopkg.in/'')
   \<and> deduceRoot (gopkginMatcher gpinNewRegex) ''gopkg.in/user/pkg.v1''
     = Ok (simpleStringFuture ''gopkg.in/user'')
   \<and> FindStringSubmatch gpinNewRegex ''gopkg.in/yaml.v2''
     = Some [''gopkg.in/yaml.v2'', ''gopkg.in/yaml.v2'', [], ''yaml'', ''v2'', [], []]"
  by code_simp

text \<open>
  C2 (the code departs from the claim). The claim: in the vanity stage, when the root
  future resolves with an error, a source future of the deferred factory resolves with
  that same error, and no further request is sent and no candidate tried. The call for
  \<^verbatim>\<open>example.org/pkg\<close> reaches the vanity stage: it starts the metadata goroutine and
  returns the two futures (together with the error left by the generic matcher). With
  no host reachable, the root future of \<^verbatim>\<open>example.org/pkg\<close> yields the error "unable to
  deduce repository and source type"; the source future then yields \<open>(nil, nil)\<close>: the
  error went to the variable that \<^verbatim>\<open>_, err := root()\<close> declares inside the goroutine,
  not to the one the future returns. The world is unchanged, as the claim says.
\<close>

theorem vanity_source_future_loses_root_error:
  "deduceFromPath parse_plain registry ''example.org/pkg''
     = (Returned (Some metadataFuture) (Some vanityFutureSource)
          (Some (Errorf ''%s contains no vcs extension hints for matching''
                   [S ''example.org/pkg''])),
        [metadataFetch ''example.org/pkg''])
   \<and> (case metadata_goroutine unreachable ''example.org/pkg'' new_rootVars quiet of
        (rv, w1) \<Rightarrow>
          fst (call_root metadataFuture (rv, w1))
            = Some ([], Some (Errorf ''unable to deduce repository and source type for: %q''
                                [S ''example.org/pkg'']))
          \<and> (case run_source unreachable vanityFutureSource rv ''cache'' () w1 of
               None \<Rightarrow> False
             | Some (sv, w2) \<Rightarrow>
                 fst (call_source (sv, w2)) = Some (None, None) \<and> w2 = w1))"
  by code_simp

text \<open>
  C3 (amended). The claim: for every path matched by the generic pattern with no explicit
  scheme, \<^verbatim>\<open>deduceSource\<close> returns one candidate per scheme of the scheme set of the
  matched kind, in the order of that set, and returns normally for all four suffixes.
  At the suffix \<^verbatim>\<open>svn\<close> the method returns the error "unknown repository type" by
  its \<^verbatim>\<open>default\<close> branch; at \<^verbatim>\<open>hg\<close> the loop over \<^verbatim>\<open>gitSchemes\<close> writes past the
  three entries made for \<^verbatim>\<open>hgSchemes\<close>, and at \<^verbatim>\<open>bzr\<close> the candidates carry the
  schemes of git.
\<close>

theorem vcsExtension_no_scheme_counterexample:
  "deduceSource (vcsExtensionMatcher vcsExtensionRegex) ''example.com/repo.svn''
     \<lparr>Scheme = [], User = None, Host = [], Path = ''example.com/repo.svn''\<rparr>
     = Err (Errorf ''unknown repository type: %q'' [S ''svn''])
   \<and> deduceSource (vcsExtensionMatcher vcsExtensionRegex) ''example.com/repo.hg''
     \<lparr>Scheme = [], User = None, Host = [], Path = ''example.com/repo.hg''\<rparr>
     = Panic (IndexOutOfRange 3 3)
   \<and> deduceSource (vcsExtensionMatcher vcsExtensionRegex) ''example.com/repo.bzr''
     \<lparr>Scheme = [], User = None, Host = [], Path = ''example.com/repo.bzr''\<rparr>
     = Ok (sourceFutureFactory (maybeSources
         [maybeBzrSource (Some \<lparr>Scheme = ''https'', User = None, Host = ''example.com'', Path = ''repo.bzr''\<rparr>),
          maybeBzrSource (Some \<lparr>Scheme = ''ssh'', User = None, Host = ''example.com'', Path = ''repo.bzr''\<rparr>),
          maybeBzrSource (Some \<lparr>Scheme = ''git'', User = None, Host = ''example.com'', Path = ''repo.bzr''\<rparr>),
          maybeBzrSource (Some \<lparr>Scheme = ''http'', User = None, Host = ''example.com'', Path = ''repo.bzr''\<rparr>)]))
   \<and> bzrSchemes = [''https'', ''bzr+ssh'', ''bzr'', ''http'']"
  by code_simp

text \<open>
  C3 as amended: for every path matched by the generic pattern with no explicit scheme,
  at the suffix \<^verbatim>\<open>git\<close> the method splits the root at its first slash into host and
  path and returns one git candidate per scheme of \<^verbatim>\<open>gitSchemes\<close>, in that order;
  at the suffix \<^verbatim>\<open>svn\<close> it returns the error "unknown repository type".
\<close>

theorem vcsExtension_no_scheme:
  assumes m: "FindStringSubmatch vcsExtensionRegex path = Some v"
    and scheme: "Scheme u = []"
  shows "(v ! 5 = ''git'' \<longrightarrow>
            (\<exists>x0 x1. SplitN_2 (v ! 1) ''/'' = [x0, x1] \<and>
               v ! 1 = x0 @ ''/'' @ x1 \<and> CHR ''/'' \<notin> set x0 \<and>
               deduceSource (vcsExtensionMatcher vcsExtensionRegex) path u =
                 Ok (sourceFutureFactory (maybeSources
                   (map (\<lambda>scheme. maybeGitSource (Some (u\<lparr>Host := x0, Path := x1, Scheme := scheme\<rparr>)))
                        gitSchemes)))))
       \<and> (v ! 5 = ''svn'' \<longrightarrow>
            deduceSource (vcsExtensionMatcher vcsExtensionRegex) path u =
              Err (Errorf ''unknown repository type: %q'' [S ''svn'']))"
proof -
  from vcs_split[OF m] obtain x0 x1 where x: "SplitN_2 (v ! 1) ''/'' = [x0, x1]" by blast
  from SplitN_2_char[OF x] have y: "v ! 1 = x0 @ ''/'' @ x1" "CHR ''/'' \<notin> set x0"
    by simp_all
  from vcs_git[OF m _ x, of u] vcs_svn[OF m, of u] x y scheme show ?thesis by auto
qed

theorem vcsExtension_no_scheme_witness:
  "deduceSource (vcsExtensionMatcher vcsExtensionRegex) ''example.com/user/repo.git/sub''
     \<lparr>Scheme = [], User = None, Host = [], Path = ''example.com/user/repo.git/sub''\<rparr>
     = Ok (sourceFutureFactory (maybeSources
         [maybeGitSource (Some \<lparr>Scheme = ''https'', User = None, Host = ''example.com'', Path = ''user/repo.git''\<rparr>),
          maybeGitSource (Some \<lparr>Scheme = ''ssh'', User = None, Host = ''example.com'', Path = ''user/repo.git''\<rparr>),
          maybeGitSource (Some \<lparr>Scheme = ''git'', User = None, Host = ''example.com'', Path = ''user/repo.git''\<rparr>),
          maybeGitSource (Some \<lparr>Scheme = ''http'', User = None, Host = ''example.com'', Path = ''user/repo.git''\<rparr>)]))
   \<and> deduceSource (vcsExtensionMatcher vcsExtensionRegex) ''code.example.org/repo.svn''
     \<lparr>Scheme = [], User = None, Host = [], Path = ''code.example.org/repo.svn''\<rparr>
     = Err (Errorf ''unknown repository type: %q'' [S ''svn''])"
proof -
  have m1: "FindStringSubmatch vcsExtensionRegex ''example.com/user/repo.git/sub''
      = Some [''example.com/user/repo.git/sub'', ''example.com/user/repo.git'',
              ''example.com/user/repo'', ''example.'', [], ''git'', ''/sub'']"
    by code_simp
  have sp: "SplitN_2 ''example.com/user/repo.git'' ''/'' = [''example.com'', ''user/repo.git'']"
    by code_simp
  have m2: "FindStringSubmatch vcsExtensionRegex ''code.example.org/repo.svn''
      = Some [''code.example.org/repo.svn'', ''code.example.org/repo.svn'',
              ''code.example.org/repo'', ''code.example.'', [], ''svn'', []]"
    by code_simp
  from vcsExtension_no_scheme[OF m1, of "\<lparr>Scheme = [], User = None, Host = [], Path = ''example.com/user/repo.git/sub''\<rparr>"]
  have a: "deduceSource (vcsExtensionMatcher vcsExtensionRegex) ''example.com/user/repo.git/sub''
     \<lparr>Scheme = [], User = None, Host = [], Path = ''example.com/user/repo.git/sub''\<rparr>
     = Ok (sourceFutureFactory (maybeSources
         [maybeGitSource (Some \<lparr>Scheme = ''https'', User = None, Host = ''example.com'', Path = ''user/repo.git''\<rparr>),
          maybeGitSource (Some \<lparr>Scheme = ''ssh'', User = None, Host = ''example.com'', Path = ''user/repo.git''\<rparr>),
          maybeGitSource (Some \<lparr>Scheme = ''git'', User = None, Host = ''example.com'', Path = ''user/repo.git''\<rparr>),
          maybeGitSource (Some \<lparr>Scheme = ''http'', User = None, Host = ''example.com'', Path = ''user/repo.git''\<rparr>)]))"
    by (auto simp: sp gitSchemes_def)
  from vcsExtension_no_scheme[OF m2, of "\<lparr>Scheme = [], User = None, Host = [], Path = ''code.example.org/repo.svn''\<rparr>"]
  have b: "deduceSource (vcsExtensionMatcher vcsExtensionRegex) ''code.example.org/repo.svn''
     \<lparr>Scheme = [], User = None, Host = [], Path = ''code.example.org/repo.svn''\<rparr>
     = Err (Errorf ''unknown repository type: %q'' [S ''svn''])"
    by simp
  from a b show ?thesis by simp
qed

text \<open>
  C4 (amended). The claim: for a bitbucket.org path with an explicit scheme and no hint,
  \<^verbatim>\<open>deduceSource\<close> succeeds exactly when the scheme is in the scheme set of git or
  of hg, and then gives one candidate per kind for which the scheme is valid. The
  scheme \<^verbatim>\<open>git\<close> is valid for git only, and the method returns a git and an hg
  candidate.
\<close>

theorem bitbucket_explicit_scheme_counterexample:
  "deduceSource (bitbucketMatcher bbRegex) ''bitbucket.org/user/repo''
     \<lparr>Scheme = ''git'', User = None, Host = ''bitbucket.org'', Path = ''/user/repo''\<rparr>
   = Ok (sourceFutureFactory (maybeSources
       [maybeGitSource (Some \<lparr>Scheme = ''git'', User = None, Host = ''bitbucket.org'', Path = ''user/repo''\<rparr>),
        maybeHgSource (Some \<lparr>Scheme = ''git'', User = None, Host = ''bitbucket.org'', Path = ''user/repo''\<rparr>)]))
   \<and> validateVCSScheme ''git'' ''hg'' = Ok False
   \<and> ''git'' \<notin> set hgSchemes"
  by code_simp

text \<open>
  C4 as amended: for a bitbucket.org path with an explicit scheme and no hint,
  \<^verbatim>\<open>deduceSource\<close> succeeds exactly when the scheme is in the scheme set of git or
  of hg, and then gives two candidates, the git one before the hg one, both with the
  URL of the call, whichever of the two kinds the scheme is valid for.
\<close>

theorem bitbucket_explicit_scheme_both_kinds:
  assumes m: "FindStringSubmatch bbRegex path = Some v"
    and scheme: "Scheme u \<noteq> []"
    and nogit: "\<not> HasSuffix (v ! 2) ''.git''" "Username u \<noteq> ''git''"
    and nohg: "\<not> HasSuffix (v ! 2) ''.hg''" "Username u \<noteq> ''hg''"
  shows "deduceSource (bitbucketMatcher bbRegex) path u =
          (if Scheme u \<in> set gitSchemes \<or> Scheme u \<in> set hgSchemes
           then Ok (sourceFutureFactory (maybeSources
                  [maybeGitSource (Some (u\<lparr>Path := v ! 2\<rparr>)),
                   maybeHgSource (Some (u\<lparr>Path := v ! 2\<rparr>))]))
           else Err (Errorf ''%s is not a valid scheme for accessing either a git or hg repository''
                       [S (Scheme u)]))"
  using scheme nogit nohg
  by (simp add: bitbucketMatcher_deduceSource_def m bb_regs[OF m] validate_git validate_hg
        Let_def Username_def)

theorem bitbucket_explicit_scheme_both_kinds_witness:
  "deduceSource (bitbucketMatcher bbRegex) ''bitbucket.org/user/repo''
     \<lparr>Scheme = ''https'', User = None, Host = ''bitbucket.org'', Path = ''/user/repo''\<rparr>
     = Ok (sourceFutureFactory (maybeSources
         [maybeGitSource (Some \<lparr>Scheme = ''https'', User = None, Host = ''bitbucket.org'', Path = ''user/repo''\<rparr>),
          maybeHgSource (Some \<lparr>Scheme = ''https'', User = None, Host = ''bitbucket.org'', Path = ''user/repo''\<rparr>)]))
   \<and> deduceSource (bitbucketMatcher bbRegex) ''bitbucket.org/user/repo''
     \<lparr>Scheme = ''svn'', User = None, Host = ''bitbucket.org'', Path = ''/user/repo''\<rparr>
     = Err (Errorf ''%s is not a valid scheme for accessing either a git or hg repository''
              [S ''svn''])"
proof -
  have m: "FindStringSubmatch bbRegex ''bitbucket.org/user/repo''
      = Some [''bitbucket.org/user/repo'', ''bitbucket.org/user/repo'', ''user/repo'', []]"
    by code_simp
  have g: "\<not> HasSuffix ''user/repo'' ''.git''" and h: "\<not> HasSuffix ''user/repo'' ''.hg''"
    by code_simp+
  have a: "deduceSource (bitbucketMatcher bbRegex) ''bitbucket.org/user/repo''
     \<lparr>Scheme = ''https'', User = None, Host = ''bitbucket.org'', Path = ''/user/repo''\<rparr>
     = Ok (sourceFutureFactory (maybeSources
         [maybeGitSource (Some \<lparr>Scheme = ''https'', User = None, Host = ''bitbucket.org'', Path = ''user/repo''\<rparr>),
          maybeHgSource (Some \<lparr>Scheme = ''https'', User = None, Host = ''bitbucket.org'', Path = ''user/repo''\<rparr>)]))"
    using bitbucket_explicit_scheme_both_kinds[OF m, of
        "\<lparr>Scheme = ''https'', User = None, Host = ''bitbucket.org'', Path = ''/user/repo''\<rparr>"] g h
    by (simp add: Username_def gitSchemes_def hgSchemes_def)
  have b: "deduceSource (bitbucketMatcher bbRegex) ''bitbucket.org/user/repo''
     \<lparr>Scheme = ''svn'', User = None, Host = ''bitbucket.org'', Path = ''/user/repo''\<rparr>
     = Err (Errorf ''%s is not a valid scheme for accessing either a git or hg repository''
              [S ''svn''])"
    using bitbucket_explicit_scheme_both_kinds[OF m, of
        "\<lparr>Scheme = ''svn'', User = None, Host = ''bitbucket.org'', Path = ''/user/repo''\<rparr>"] g h
    by (simp add: Username_def gitSchemes_def hgSchemes_def)
  from a b show ?thesis by simp
qed

text \<open>
  C5 (amended). The claim: for every path matched by the generic pattern the kind is
  read from the matched suffix, one of git, hg, bzr and svn, and \<^verbatim>\<open>deduceSource\<close>
  fails with "unknown repository type" only for a suffix outside those four, so that a
  path ending in \<^verbatim>\<open>.svn\<close> yields subversion candidates. The \<^verbatim>\<open>switch\<close> has the cases
  git, hg and bzr; the matched path \<^verbatim>\<open>example.com/repo.svn\<close> gets the error.
\<close>

theorem vcsExtension_unknown_type_counterexample:
  "FindStringSubmatch vcsExtensionRegex ''example.com/repo.svn''
     = Some [''example.com/repo.svn'', ''example.com/repo.svn'', ''example.com/repo'',
             ''example.'', [], ''svn'', []]
   \<and> deduceSource (vcsExtensionMatcher vcsExtensionRegex) ''example.com/repo.svn''
        \<lparr>Scheme = [], User = None, Host = [], Path = ''example.com/repo.svn''\<rparr>
      = Err (Errorf ''unknown repository type: %q'' [S ''svn''])"
  by code_simp

text \<open>
  C5 as amended: for every path matched by the generic pattern the kind is read from the
  matched suffix, which is one of bzr, git, hg and svn, and \<^verbatim>\<open>deduceSource\<close> fails
  with "unknown repository type" exactly when that suffix is svn: never for git, hg or
  bzr, and always, with no candidate, for svn.
\<close>

theorem vcsExtension_unknown_type:
  assumes m: "FindStringSubmatch vcsExtensionRegex path = Some v"
  shows "v ! 5 \<in> {''bzr'', ''git'', ''hg'', ''svn''}
       \<and> ((\<exists>ops. deduceSource (vcsExtensionMatcher vcsExtensionRegex) path u =
                    Err (Errorf ''unknown repository type: %q'' ops))
            \<longleftrightarrow> v ! 5 = ''svn'')
       \<and> (v ! 5 = ''svn'' \<longrightarrow>
            deduceSource (vcsExtensionMatcher vcsExtensionRegex) path u =
              Err (Errorf ''unknown repository type: %q'' [S ''svn'']))"
proof -
  note k = vcs_regs(1)[OF m]
  from vcs_split[OF m] obtain x0 x1 where x: "SplitN_2 (v ! 1) ''/'' = [x0, x1]" by blast
  have other: "\<not> (\<exists>ops. deduceSource (vcsExtensionMatcher vcsExtensionRegex) path u =
                    Err (Errorf ''unknown repository type: %q'' ops))"
    if "v ! 5 \<noteq> ''svn''"
  proof -
    from k that consider "v ! 5 = ''git''" | "v ! 5 = ''hg''" | "v ! 5 = ''bzr''" by auto
    then show ?thesis
    proof cases
      case 1
      from vcs_git[OF m 1 x, of u] show ?thesis by simp
    next
      case 2
      from vcs_hg[OF m 2 x, of u] show ?thesis by simp
    next
      case 3
      from vcs_bzr[OF m 3 x, of u] show ?thesis by simp
    qed
  qed
  from k vcs_svn[OF m, of u] other show ?thesis by auto
qed

theorem vcsExtension_unknown_type_witness:
  "''git'' \<in> {''bzr'', ''git'', ''hg'', ''svn''}
   \<and> \<not> (\<exists>ops. deduceSource (vcsExtensionMatcher vcsExtensionRegex) ''example.com/user/repo.git''
             \<lparr>Scheme = [], User = None, Host = [], Path = ''example.com/user/repo.git''\<rparr>
           = Err (Errorf ''unknown repository type: %q'' ops))
   \<and> deduceSource (vcsExtensionMatcher vcsExtensionRegex) ''example.org/repo.svn/pkg''
        \<lparr>Scheme = [], User = None, Host = [], Path = ''example.org/repo.svn/pkg''\<rparr>
      = Err (Errorf ''unknown repository type: %q'' [S ''svn''])"
proof -
  have m1: "FindStringSubmatch vcsExtensionRegex ''example.com/user/repo.git''
      = Some [''example.com/user/repo.git'', ''example.com/user/repo.git'',
              ''example.com/user/repo'', ''example.'', [], ''git'', []]"
    by code_simp
  have m2: "FindStringSubmatch vcsExtensionRegex ''example.org/repo.svn/pkg''
      = Some [''example.org/repo.svn/pkg'', ''example.org/repo.svn'',
              ''example.org/repo'', ''example.'', [], ''svn'', ''/pkg'']"
    by code_simp
  from vcsExtension_unknown_type[OF m1, of "\<lparr>Scheme = [], User = None, Host = [], Path = ''example.com/user/repo.git''\<rparr>"]
  have a: "\<not> (\<exists>ops. deduceSource (vcsExtensionMatcher vcsExtensionRegex) ''example.com/user/repo.git''
             \<lparr>Scheme = [], User = None, Host = [], Path = ''example.com/user/repo.git''\<rparr>
           = Err (Errorf ''unknown repository type: %q'' ops))"
    by simp
  from vcsExtension_unknown_type[OF m2, of "\<lparr>Scheme = [], User = None, Host = [], Path = ''example.org/repo.svn/pkg''\<rparr>"]
  have b: "deduceSource (vcsExtensionMatcher vcsExtensionRegex) ''example.org/repo.svn/pkg''
        \<lparr>Scheme = [], User = None, Host = [], Path = ''example.org/repo.svn/pkg''\<rparr>
      = Err (Errorf ''unknown repository type: %q'' [S ''svn''])"
    by simp
  from a b show ?thesis by simp
qed

text \<open>
  C6. In \<^verbatim>\<open>deduceFromPath\<close>, once the longest-prefix lookup has selected a matcher, an
  error of its \<^verbatim>\<open>deduceRoot\<close> or \<^verbatim>\<open>deduceSource\<close> is the result of the call; once
  the generic pattern has matched, an error of its \<^verbatim>\<open>deduceSource\<close> is the result of
  the call; in each case no goroutine is started, so no request is sent. The metadata
  goroutine is started only when the lookup finds nothing and the generic pattern does
  not match; the call then returns the two futures, together with the error that the
  generic matcher left in the named result.
\<close>

theorem deduceFromPath_stage_commitment:
  assumes n: "normalizeURI parse path = Ok u"
  shows "(LongestPrefix rootxt path = Some (k, mtch) \<longrightarrow> deduceRoot mtch path = Err e \<longrightarrow>
            deduceFromPath parse rootxt path = (Returned None None (Some e), []))
       \<and> (LongestPrefix rootxt path = Some (k, mtch) \<longrightarrow> deduceRoot mtch path = Ok root \<longrightarrow>
            deduceSource mtch path u = Err e \<longrightarrow>
            deduceFromPath parse rootxt path = (Returned None None (Some e), []))
       \<and> (LongestPrefix rootxt path = None \<longrightarrow>
            deduceRoot (vcsExtensionMatcher vcsExtensionRegex) path = Ok root \<longrightarrow>
            deduceSource (vcsExtensionMatcher vcsExtensionRegex) path u = Err e \<longrightarrow>
            deduceFromPath parse rootxt path = (Returned None None (Some e), []))
       \<and> (snd (deduceFromPath parse rootxt path) \<noteq> [] \<longrightarrow>
            LongestPrefix rootxt path = None
            \<and> (\<exists>e'. deduceRoot (vcsExtensionMatcher vcsExtensionRegex) path = Err e'))"
  by (auto simp: deduceFromPath_def n Let_def split: option.splits res.splits)

theorem deduceFromPath_stage_commitment_witness:
  "normalizeURI parse_plain ''github.com/user''
     = Ok \<lparr>Scheme = [], User = None, Host = [], Path = ''github.com/user''\<rparr>
   \<and> LongestPrefix registry ''github.com/user'' = Some (''github.com'', githubMatcher ghRegex)
   \<and> deduceRoot (githubMatcher ghRegex) ''github.com/user''
        = Err (Errorf ''%s is not a valid path for a source on github.com'' [S ''github.com/user''])
   \<and> deduceFromPath parse_plain registry ''github.com/user''
        = (Returned None None
             (Some (Errorf ''%s is not a valid path for a source on github.com''
                      [S ''github.com/user''])), [])
   \<and> deduceFromPath parse_plain registry ''gopkg.in/pkg.v1.2''
        = (Returned None None
             (Some (Errorf ''%q is not a valid import path; gopkg.in only allows major versions (%q instead of %q)''
                      [S ''gopkg.in/pkg.v1.2'', S ''v1'', S ''v1.2''])), [])
   \<and> deduceFromPath parse_plain registry ''example.com/repo.svn''
        = (Returned None None (Some (Errorf ''unknown repository type: %q'' [S ''svn''])), [])
   \<and> deduceFromPath parse_plain registry ''example.org/pkg''
        = (Returned (Some metadataFuture) (Some vanityFutureSource)
             (Some (Errorf ''%s contains no vcs extension hints for matching''
                      [S ''example.org/pkg''])),
           [metadataFetch ''example.org/pkg''])
   \<and> LongestPrefix registry ''example.org/pkg'' = None
   \<and> (\<exists>e'. deduceRoot (vcsExtensionMatcher vcsExtensionRegex) ''example.org/pkg'' = Err e')"
proof -
  let ?u1 = "\<lparr>Scheme = [], User = None, Host = [], Path = ''github.com/user''\<rparr>"
  let ?u2 = "\<lparr>Scheme = [], User = None, Host = [], Path = ''gopkg.in/pkg.v1.2''\<rparr>"
  let ?u3 = "\<lparr>Scheme = [], User = None, Host = [], Path = ''example.com/repo.svn''\<rparr>"
  have n1: "normalizeURI parse_plain ''github.com/user'' = Ok ?u1" by code_simp
  have l1: "LongestPrefix registry ''github.com/user'' = Some (''github.com'', githubMatcher ghRegex)"
    by code_simp
  have r1: "deduceRoot (githubMatcher ghRegex) ''github.com/user''
        = Err (Errorf ''%s is not a valid path for a source on github.com'' [S ''github.com/user''])"
    by code_simp
  have n2: "normalizeURI parse_plain ''gopkg.in/pkg.v1.2'' = Ok ?u2" by code_simp
  have l2: "LongestPrefix registry ''gopkg.in/pkg.v1.2'' = Some (''gopkg.in'', gopkginMatcher gpinNewRegex)"
    by code_simp
  have r2: "deduceRoot (gopkginMatcher gpinNewRegex) ''gopkg.in/pkg.v1.2''
        = Ok (simpleStringFuture ''gopkg.in/'')"
    by code_simp
  have s2: "deduceSource (gopkginMatcher gpinNewRegex) ''gopkg.in/pkg.v1.2'' ?u2
        = Err (Errorf ''%q is not a valid import path; gopkg.in only allows major versions (%q instead of %q)''
                  [S ''gopkg.in/pkg.v1.2'', S ''v1'', S ''v1.2''])"
    by code_simp
  have n3: "normalizeURI parse_plain ''example.com/repo.svn'' = Ok ?u3" by code_simp
  have l3: "LongestPrefix registry ''example.com/repo.svn'' = None" by code_simp
  have r3: "deduceRoot (vcsExtensionMatcher vcsExtensionRegex) ''example.com/repo.svn''
        = Ok (simpleStringFuture ''example.com/repo.svn'')"
    by code_simp
  have s3: "deduceSource (vcsExtensionMatcher vcsExtensionRegex) ''example.com/repo.svn'' ?u3
        = Err (Errorf ''unknown repository type: %q'' [S ''svn''])"
    by code_simp
  from deduceFromPath_stage_commitment[OF n1, of registry] l1 r1
  have a: "deduceFromPath parse_plain registry ''github.com/user''
        = (Returned None None
             (Some (Errorf ''%s is not a valid path for a source on github.com''
                      [S ''github.com/user''])), [])"
    by blast
  from deduceFromPath_stage_commitment[OF n2, of registry] l2 r2 s2
  have b: "deduceFromPath parse_plain registry ''gopkg.in/pkg.v1.2''
        = (Returned None None
             (Some (Errorf ''%q is not a valid import path; gopkg.in only allows major versions (%q instead of %q)''
                      [S ''gopkg.in/pkg.v1.2'', S ''v1'', S ''v1.2''])), [])"
    by blast
  from deduceFromPath_stage_commitment[OF n3, of registry] l3 r3 s3
  have c: "deduceFromPath parse_plain registry ''example.com/repo.svn''
        = (Returned None None (Some (Errorf ''unknown repository type: %q'' [S ''svn''])), [])"
    by blast
  have n4: "normalizeURI parse_plain ''example.org/pkg''
        = Ok \<lparr>Scheme = [], User = None, Host = [], Path = ''example.org/pkg''\<rparr>"
    by code_simp
  have d: "deduceFromPath parse_plain registry ''example.org/pkg''
        = (Returned (Some metadataFuture) (Some vanityFutureSource)
             (Some (Errorf ''%s contains no vcs extension hints for matching''
                      [S ''example.org/pkg''])),
           [metadataFetch ''example.org/pkg''])"
    by code_simp
  then have "snd (deduceFromPath parse_plain registry ''example.org/pkg'') \<noteq> []" by simp
  with deduceFromPath_stage_commitment[OF n4, of registry]
  have e: "LongestPrefix registry ''example.org/pkg'' = None
      \<and> (\<exists>e'. deduceRoot (vcsExtensionMatcher vcsExtensionRegex) ''example.org/pkg'' = Err e')"
    by blast
  from n1 l1 r1 a b c d e show ?thesis by simp
qed

text \<open>
  C7. For every bitbucket.org path with no explicit scheme: with a \<^verbatim>\<open>.git\<close> suffix
  or the URL user \<^verbatim>\<open>git\<close> every candidate is a git candidate; with a \<^verbatim>\<open>.hg\<close>
  suffix or the URL user \<^verbatim>\<open>hg\<close> every candidate is an hg candidate; a hint for one
  kind alone gives one candidate per scheme of that kind, in order; with no hint the
  list is the git candidates followed by the hg candidates.
\<close>

theorem bitbucket_no_scheme_candidates:
  assumes m: "FindStringSubmatch bbRegex path = Some v"
    and scheme: "Scheme u = []"
    and isgit: "isgit = (HasSuffix (v ! 2) ''.git'' \<or> Username u = ''git'')"
    and ishg: "ishg = (HasSuffix (v ! 2) ''.hg'' \<or> Username u = ''hg'')"
    and gits: "gits = map (\<lambda>scheme. maybeGitSource (Some (u\<lparr>Scheme := scheme, Path := v ! 2\<rparr>))) gitSchemes"
    and hgs: "hgs = map (\<lambda>scheme. maybeHgSource (Some (u\<lparr>Scheme := scheme, Path := v ! 2\<rparr>))) hgSchemes"
  shows "\<exists>mb. deduceSource (bitbucketMatcher bbRegex) path u = Ok (sourceFutureFactory (maybeSources mb))
           \<and> (isgit \<longrightarrow> list_all isGit mb)
           \<and> (ishg \<longrightarrow> list_all isHg mb)
           \<and> (isgit \<and> \<not> ishg \<longrightarrow> mb = gits)
           \<and> (ishg \<and> \<not> isgit \<longrightarrow> mb = hgs)
           \<and> (\<not> isgit \<and> \<not> ishg \<longrightarrow> mb = gits @ hgs)"
proof -
  have r: "deduceSource (bitbucketMatcher bbRegex) path u =
        Ok (sourceFutureFactory (maybeSources ((if ishg then [] else gits) @ (if isgit then [] else hgs))))"
    using scheme
    by (simp add: bitbucketMatcher_deduceSource_def m bb_regs[OF m] Let_def Username_def
          append_all_map isgit ishg gits hgs)
  have g: "list_all isGit gits" by (simp add: gits list_all_iff)
  have h: "list_all isHg hgs" by (simp add: hgs list_all_iff)
  show ?thesis using r g h by auto
qed

theorem bitbucket_no_scheme_candidates_witness:
  "deduceSource (bitbucketMatcher bbRegex) ''bitbucket.org/user/repo''
     \<lparr>Scheme = [], User = None, Host = [], Path = ''bitbucket.org/user/repo''\<rparr>
     = Ok (sourceFutureFactory (maybeSources
         ([maybeGitSource (Some \<lparr>Scheme = ''https'', User = None, Host = [], Path = ''user/repo''\<rparr>),
          maybeGitSource (Some \<lparr>Scheme = ''ssh'', User = None, Host = [], Path = ''user/repo''\<rparr>),
          maybeGitSource (Some \<lparr>Scheme = ''git'', User = None, Host = [], Path = ''user/repo''\<rparr>),
          maybeGitSource (Some \<lparr>Scheme = ''http'', User = None, Host = [], Path = ''user/repo''\<rparr>)]
          @ [maybeHgSource (Some \<lparr>Scheme = ''https'', User = None, Host = [], Path = ''user/repo''\<rparr>),
          maybeHgSource (Some \<lparr>Scheme = ''ssh'', User = None, Host = [], Path = ''user/repo''\<rparr>),
          maybeHgSource (Some \<lparr>Scheme = ''http'', User = None, Host = [], Path = ''user/repo''\<rparr>)])))
   \<and> deduceSource (bitbucketMatcher bbRegex) ''bitbucket.org/user/repo.git''
     \<lparr>Scheme = [], User = None, Host = [], Path = ''bitbucket.org/user/repo.git''\<rparr>
     = Ok (sourceFutureFactory (maybeSources
         [maybeGitSource (Some \<lparr>Scheme = ''https'', User = None, Host = [], Path = ''user/repo.git''\<rparr>),
          maybeGitSource (Some \<lparr>Scheme = ''ssh'', User = None, Host = [], Path = ''user/repo.git''\<rparr>),
          maybeGitSource (Some \<lparr>Scheme = ''git'', User = None, Host = [], Path = ''user/repo.git''\<rparr>),
          maybeGitSource (Some \<lparr>Scheme = ''http'', User = None, Host = [], Path = ''user/repo.git''\<rparr>)]))
   \<and> deduceSource (bitbucketMatcher bbRegex) ''bitbucket.org/user/repo.hg''
     \<lparr>Scheme = [], User = None, Host = [], Path = ''bitbucket.org/user/repo.hg''\<rparr>
     = Ok (sourceFutureFactory (maybeSources
         [maybeHgSource (Some \<lparr>Scheme = ''https'', User = None, Host = [], Path = ''user/repo.hg''\<rparr>),
          maybeHgSource (Some \<lparr>Scheme = ''ssh'', User = None, Host = [], Path = ''user/repo.hg''\<rparr>),
          maybeHgSource (Some \<lparr>Scheme = ''http'', User = None, Host = [], Path = ''user/repo.hg''\<rparr>)]))"
proof -
  have m1: "FindStringSubmatch bbRegex ''bitbucket.org/user/repo''
      = Some [''bitbucket.org/user/repo'', ''bitbucket.org/user/repo'', ''user/repo'', []]"
    by code_simp
  have m2: "FindStringSubmatch bbRegex ''bitbucket.org/user/repo.git''
      = Some [''bitbucket.org/user/repo.git'', ''bitbucket.org/user/repo.git'', ''user/repo.git'', []]"
    by code_simp
  have m3: "FindStringSubmatch bbRegex ''bitbucket.org/user/repo.hg''
      = Some [''bitbucket.org/user/repo.hg'', ''bitbucket.org/user/repo.hg'', ''user/repo.hg'', []]"
    by code_simp
  have s: "\<not> HasSuffix ''user/repo'' ''.git''" "\<not> HasSuffix ''user/repo'' ''.hg''"
    "HasSuffix ''user/repo.git'' ''.git''" "\<not> HasSuffix ''user/repo.git'' ''.hg''"
    "\<not> HasSuffix ''user/repo.hg'' ''.git''" "HasSuffix ''user/repo.hg'' ''.hg''"
    by code_simp+
  have a: "deduceSource (bitbucketMatcher bbRegex) ''bitbucket.org/user/repo''
     \<lparr>Scheme = [], User = None, Host = [], Path = ''bitbucket.org/user/repo''\<rparr>
     = Ok (sourceFutureFactory (maybeSources
         ([maybeGitSource (Some \<lparr>Scheme = ''https'', User = None, Host = [], Path = ''user/repo''\<rparr>),
          maybeGitSource (Some \<lparr>Scheme = ''ssh'', User = None, Host = [], Path = ''user/repo''\<rparr>),
          maybeGitSource (Some \<lparr>Scheme = ''git'', User = None, Host = [], Path = ''user/repo''\<rparr>),
          maybeGitSource (Some \<lparr>Scheme = ''http'', User = None, Host = [], Path = ''user/repo''\<rparr>)]
          @ [maybeHgSource (Some \<lparr>Scheme = ''https'', User = None, Host = [], Path = ''user/repo''\<rparr>),
          maybeHgSource (Some \<lparr>Scheme = ''ssh'', User = None, Host = [], Path = ''user/repo''\<rparr>),
          maybeHgSource (Some \<lparr>Scheme = ''http'', User = None, Host = [], Path = ''user/repo''\<rparr>)])))"
    using bitbucket_no_scheme_candidates[OF m1 _ refl refl refl refl, of
        "\<lparr>Scheme = [], User = None, Host = [], Path = ''bitbucket.org/user/repo''\<rparr>"] s
    by (auto simp: Username_def gitSchemes_def hgSchemes_def)
  have b: "deduceSource (bitbucketMatcher bbRegex) ''bitbucket.org/user/repo.git''
     \<lparr>Scheme = [], User = None, Host = [], Path = ''bitbucket.org/user/repo.git''\<rparr>
     = Ok (sourceFutureFactory (maybeSources
         [maybeGitSource (Some \<lparr>Scheme = ''https'', User = None, Host = [], Path = ''user/repo.git''\<rparr>),
          maybeGitSource (Some \<lparr>Scheme = ''ssh'', User = None, Host = [], Path = ''user/repo.git''\<rparr>),
          maybeGitSource (Some \<lparr>Scheme = ''git'', User = None, Host = [], Path = ''user/repo.git''\<rparr>),
          maybeGitSource (Some \<lparr>Scheme = ''http'', User = None, Host = [], Path = ''user/repo.git''\<rparr>)]))"
    using bitbucket_no_scheme_candidates[OF m2 _ refl refl refl refl, of
        "\<lparr>Scheme = [], User = None, Host = [], Path = ''bitbucket.org/user/repo.git''\<rparr>"] s
    by (auto simp: Username_def gitSchemes_def hgSchemes_def)
  have c: "deduceSource (bitbucketMatcher bbRegex) ''bitbucket.org/user/repo.hg''
     \<lparr>Scheme = [], User = None, Host = [], Path = ''bitbucket.org/user/repo.hg''\<rparr>
     = Ok (sourceFutureFactory (maybeSources
         [maybeHgSource (Some \<lparr>Scheme = ''https'', User = None, Host = [], Path = ''user/repo.hg''\<rparr>),
          maybeHgSource (Some \<lparr>Scheme = ''ssh'', User = None, Host = [], Path = ''user/repo.hg''\<rparr>),
          maybeHgSource (Some \<lparr>Scheme = ''http'', User = None, Host = [], Path = ''user/repo.hg''\<rparr>)]))"
    using bitbucket_no_scheme_candidates[OF m3 _ refl refl refl refl, of
        "\<lparr>Scheme = [], User = None, Host = [], Path = ''bitbucket.org/user/repo.hg''\<rparr>"] s
    by (auto simp: Username_def gitSchemes_def hgSchemes_def)
  from a b c show ?thesis by simp
qed

text \<open>
  C8. For every path that the gopkg.in pattern matches, \<^verbatim>\<open>deduceSource\<close> returns an
  error when the captured version (register 4) contains a dot, returns an error when
  the URL has an explicit scheme, and otherwise returns one git candidate per scheme of
  \<^verbatim>\<open>gitSchemes\<close> whose URL has the host \<^verbatim>\<open>github.com\<close> and the path
  \<^verbatim>\<open>user/pkg\<close> when the user segment (register 2) is present and \<^verbatim>\<open>go-pkg/pkg\<close>
  when it is absent.
\<close>

theorem gopkgin_deduceSource_rules:
  assumes m: "FindStringSubmatch gpinNewRegex path = Some v"
  shows "deduceSource (gopkginMatcher gpinNewRegex) path u =
          (if Contains (v ! 4) ''.'' then
             Err (Errorf ''%q is not a valid import path; gopkg.in only allows major versions (%q instead of %q)''
                    [S path, S (take (nat (Index (v ! 4) ''.'')) (v ! 4)), S (v ! 4)])
           else if Scheme u \<noteq> [] then
             Err (Errorf ''Specifying alternate schemes on gopkg.in imports is not permitted'' [])
           else
             Ok (sourceFutureFactory (maybeSources
                   (map (\<lambda>scheme. maybeGitSource (Some
                           \<lparr>Scheme = scheme, User = User u, Host = ''github.com'',
                             Path = (if v ! 2 = [] then ''go-pkg/'' @ v ! 3
                                     else v ! 2 @ ''/'' @ v ! 3)\<rparr>))
                        gitSchemes))))"
  by (simp add: gopkginMatcher_deduceSource_def m gpin_regs[OF m] fill_make Let_def)

theorem gopkgin_deduceSource_rules_witness:
  "deduceSource (gopkginMatcher gpinNewRegex) ''gopkg.in/yaml.v2''
     \<lparr>Scheme = [], User = None, Host = [], Path = ''gopkg.in/yaml.v2''\<rparr>
     = Ok (sourceFutureFactory (maybeSources
         [maybeGitSource (Some \<lparr>Scheme = ''https'', User = None, Host = ''github.com'', Path = ''go-pkg/yaml''\<rparr>),
          maybeGitSource (Some \<lparr>Scheme = ''ssh'', User = None, Host = ''github.com'', Path = ''go-pkg/yaml''\<rparr>),
          maybeGitSource (Some \<lparr>Scheme = ''git'', User = None, Host = ''github.com'', Path = ''go-pkg/yaml''\<rparr>),
          maybeGitSource (Some \<lparr>Scheme = ''http'', User = None, Host = ''github.com'', Path = ''go-pkg/yaml''\<rparr>)]))
   \<and> deduceSource (gopkginMatcher gpinNewRegex) ''gopkg.in/user/pkg.v1''
     \<lparr>Scheme = [], User = None, Host = [], Path = ''gopkg.in/user/pkg.v1''\<rparr>
     = Ok (sourceFutureFactory (maybeSources
         [maybeGitSource (Some \<lparr>Scheme = ''https'', User = None, Host = ''github.com'', Path = ''user/pkg''\<rparr>),
          maybeGitSource (Some \<lparr>Scheme = ''ssh'', User = None, Host = ''github.com'', Path = ''user/pkg''\<rparr>),
          maybeGitSource (Some \<lparr>Scheme = ''git'', User = None, Host = ''github.com'', Path = ''user/pkg''\<rparr>),
          maybeGitSource (Some \<lparr>Scheme = ''http'', User = None, Host = ''github.com'', Path = ''user/pkg''\<rparr>)]))
   \<and> deduceSource (gopkginMatcher gpinNewRegex) ''gopkg.in/pkg.v1.2''
     \<lparr>Scheme = [], User = None, Host = [], Path = ''gopkg.in/pkg.v1.2''\<rparr>
     = Err (Errorf ''%q is not a valid import path; gopkg.in only allows major versions (%q instead of %q)''
              [S ''gopkg.in/pkg.v1.2'', S ''v1'', S ''v1.2''])
   \<and> deduceSource (gopkginMatcher gpinNewRegex) ''gopkg.in/yaml.v2''
     \<lparr>Scheme = ''https'', User = None, Host = ''gopkg.in'', Path = ''/yaml.v2''\<rparr>
     = Err (Errorf ''Specifying alternate schemes on gopkg.in imports is not permitted'' [])"
proof -
  have m1: "FindStringSubmatch gpinNewRegex ''gopkg.in/yaml.v2''
      = Some [''gopkg.in/yaml.v2'', ''gopkg.in/yaml.v2'', [], ''yaml'', ''v2'', [], []]"
    by code_simp
  have m2: "FindStringSubmatch gpinNewRegex ''gopkg.in/user/pkg.v1''
      = Some [''gopkg.in/user/pkg.v1'', ''gopkg.in/user/pkg.v1'', ''user'', ''pkg'', ''v1'', [], []]"
    by code_simp
  have m3: "FindStringSubmatch gpinNewRegex ''gopkg.in/pkg.v1.2''
      = Some [''gopkg.in/pkg.v1.2'', ''gopkg.in/pkg.v1.2'', [], ''pkg'', ''v1.2'', [], []]"
    by code_simp
  have d: "\<not> Contains ''v2'' ''.''" "\<not> Contains ''v1'' ''.''" "Contains ''v1.2'' ''.''"
    "take (nat (Index ''v1.2'' ''.'')) ''v1.2'' = ''v1''"
    by code_simp+
  have a: "deduceSource (gopkginMatcher gpinNewRegex) ''gopkg.in/yaml.v2''
     \<lparr>Scheme = [], User = None, Host = [], Path = ''gopkg.in/yaml.v2''\<rparr>
     = Ok (sourceFutureFactory (maybeSources
         [maybeGitSource (Some \<lparr>Scheme = ''https'', User = None, Host = ''github.com'', Path = ''go-pkg/yaml''\<rparr>),
          maybeGitSource (Some \<lparr>Scheme = ''ssh'', User = None, Host = ''github.com'', Path = ''go-pkg/yaml''\<rparr>),
          maybeGitSource (Some \<lparr>Scheme = ''git'', User = None, Host = ''github.com'', Path = ''go-pkg/yaml''\<rparr>),
          maybeGitSource (Some \<lparr>Scheme = ''http'', User = None, Host = ''github.com'', Path = ''go-pkg/yaml''\<rparr>)]))"
    using gopkgin_deduceSource_rules[OF m1, of "\<lparr>Scheme = [], User = None, Host = [], Path = ''gopkg.in/yaml.v2''\<rparr>"] d
    by (simp add: gitSchemes_def)
  have b: "deduceSource (gopkginMatcher gpinNewRegex) ''gopkg.in/user/pkg.v1''
     \<lparr>Scheme = [], User = None, Host = [], Path = ''gopkg.in/user/pkg.v1''\<rparr>
     = Ok (sourceFutureFactory (maybeSources
         [maybeGitSource (Some \<lparr>Scheme = ''https'', User = None, Host = ''github.com'', Path = ''user/pkg''\<rparr>),
          maybeGitSource (Some \<lparr>Scheme = ''ssh'', User = None, Host = ''github.com'', Path = ''user/pkg''\<rparr>),
          maybeGitSource (Some \<lparr>Scheme = ''git'', User = None, Host = ''github.com'', Path = ''user/pkg''\<rparr>),
          maybeGitSource (Some \<lparr>Scheme = ''http'', User = None, Host = ''github.com'', Path = ''user/pkg''\<rparr>)]))"
    using gopkgin_deduceSource_rules[OF m2, of "\<lparr>Scheme = [], User = None, Host = [], Path = ''gopkg.in/user/pkg.v1''\<rparr>"] d
    by (simp add: gitSchemes_def)
  have c: "deduceSource (gopkginMatcher gpinNewRegex) ''gopkg.in/pkg.v1.2''
     \<lparr>Scheme = [], User = None, Host = [], Path = ''gopkg.in/pkg.v1.2''\<rparr>
     = Err (Errorf ''%q is not a valid import path; gopkg.in only allows major versions (%q instead of %q)''
              [S ''gopkg.in/pkg.v1.2'', S ''v1'', S ''v1.2''])"
    using gopkgin_deduceSource_rules[OF m3, of "\<lparr>Scheme = [], User = None, Host = [], Path = ''gopkg.in/pkg.v1.2''\<rparr>"] d
    by simp
  have e: "deduceSource (gopkginMatcher gpinNewRegex) ''gopkg.in/yaml.v2''
     \<lparr>Scheme = ''https'', User = None, Host = ''gopkg.in'', Path = ''/yaml.v2''\<rparr>
     = Err (Errorf ''Specifying alternate schemes on gopkg.in imports is not permitted'' [])"
    using gopkgin_deduceSource_rules[OF m1, of "\<lparr>Scheme = ''https'', User = None, Host = ''gopkg.in'', Path = ''/yaml.v2''\<rparr>"] d
    by simp
  from a b c e show ?thesis by simp
qed

text \<open>
  C9. Every future of this file is memoized. When the goroutine behind a future has
  returned, its channel is closed, and any number of calls of the future, one after the
  other, return the same pair of value and error, the one that the goroutine left in
  the variables, and change neither the variables nor the world (no request is sent
  and no candidate tried again). This holds for the root future of the vanity stage,
  for the immediate root future of the other stages, for the source future of
  \<^verbatim>\<open>sourceFutureFactory\<close> and for the source future of the vanity stage, whose goroutine
  does return once the root future has resolved.
\<close>

theorem futures_memoized:
  "(let st = metadata_goroutine env path rv w in
      c_closed (fst st)
      \<and> repeat_call (call_root metadataFuture) n st
          = (replicate n (Some (importroot (fst st), futerr (fst st))), st))
   \<and> repeat_call (call_root (simpleStringFuture s)) n rst = (replicate n (Some (s, None)), rst)
   \<and> (let st = try_goroutine env mb cachedir an sv w1 in
        sc_closed (fst st)
        \<and> repeat_call call_source n st = (replicate n (Some (src (fst st), err (fst st))), st))
   \<and> (\<exists>st. vanity_goroutine env (fst (metadata_goroutine env path rv w)) cachedir an sv w2 = Some st
        \<and> sc_closed (fst st)
        \<and> repeat_call call_source n st = (replicate n (Some (src (fst st), err (fst st))), st))"
proof -
  have a: "c_closed (fst (metadata_goroutine env path rv w))"
    by (rule metadata_goroutine_closes)
  have b: "repeat_call (call_root (simpleStringFuture s)) n rst = (replicate n (Some (s, None)), rst)"
    by (rule repeat_call_fixed) (simp add: call_root_def)
  have c: "sc_closed (fst (try_goroutine env mb cachedir an sv w1))"
    by (rule try_goroutine_closes)
  from vanity_goroutine_closes[OF a, of env cachedir an sv w2] obtain st where
    d: "vanity_goroutine env (fst (metadata_goroutine env path rv w)) cachedir an sv w2 = Some st"
    and e: "sc_closed (fst st)" by blast
  have a': "repeat_call (call_root metadataFuture) n (metadata_goroutine env path rv w)
      = (replicate n (Some (importroot (fst (metadata_goroutine env path rv w)),
                            futerr (fst (metadata_goroutine env path rv w)))),
         metadata_goroutine env path rv w)"
    by (rule repeat_call_fixed) (rule call_root_closed[OF a])
  have c': "repeat_call call_source n (try_goroutine env mb cachedir an sv w1)
      = (replicate n (Some (src (fst (try_goroutine env mb cachedir an sv w1)),
                            err (fst (try_goroutine env mb cachedir an sv w1)))),
         try_goroutine env mb cachedir an sv w1)"
    by (rule repeat_call_fixed) (rule call_source_closed[OF c])
  have e': "repeat_call call_source n st = (replicate n (Some (src (fst st), err (fst st))), st)"
    by (rule repeat_call_fixed) (rule call_source_closed[OF e])
  show ?thesis
    unfolding Let_def using a a' b c c' d e e' by simp
qed

text \<open>
  C10. For every input that the SCP-like pattern matches, with the registers user, host
  and rest, \<^verbatim>\<open>normalizeURI\<close> builds the URL with scheme \<^verbatim>\<open>ssh\<close>, that user and host
  and the path \<^verbatim>\<open>/rest\<close>; the host is not empty, so the string validated against the
  import path grammar is \<^verbatim>\<open>host/rest\<close>; the URL is returned when that string
  matches, and the error "is not a valid import path" otherwise.
\<close>

theorem normalizeURI_scp:
  assumes m: "FindStringSubmatch scpSyntaxRe path = Some v"
  shows "normalizeURI parse path =
          (if MatchString pathvld (v ! 2 @ ''/'' @ v ! 3)
           then Ok \<lparr>Scheme = ''ssh'', User = Some (v ! 1), Host = v ! 2, Path = ''/'' @ v ! 3\<rparr>
           else Err (Errorf ''%q is not a valid import path'' [S (v ! 2 @ ''/'' @ v ! 3)]))"
  using TrimPrefix_slash[of "v ! 3"] scp_host_nonempty[OF m]
  by (simp add: normalizeURI_def m scp_regs[OF m] Let_def)

theorem normalizeURI_scp_witness:
  "FindStringSubmatch scpSyntaxRe ''git@example.com:user/repo''
     = Some [''git@example.com:user/repo'', ''git'', ''example.com'', ''user/repo'']
   \<and> normalizeURI parse_plain ''git@example.com:user/repo''
     = Ok \<lparr>Scheme = ''ssh'', User = Some ''git'', Host = ''example.com'', Path = ''/user/repo''\<rparr>
   \<and> normalizeURI parse_plain ''git@localhost:repo''
     = Err (Errorf ''%q is not a valid import path'' [S ''localhost/repo''])"
proof -
  have m1: "FindStringSubmatch scpSyntaxRe ''git@example.com:user/repo''
     = Some [''git@example.com:user/repo'', ''git'', ''example.com'', ''user/repo'']"
    by code_simp
  have m2: "FindStringSubmatch scpSyntaxRe ''git@localhost:repo''
     = Some [''git@localhost:repo'', ''git'', ''localhost'', ''repo'']"
    by code_simp
  have v1: "MatchString pathvld ''example.com/user/repo''" by code_simp
  have v2: "\<not> MatchString pathvld ''localhost/repo''" by code_simp
  have a: "normalizeURI parse_plain ''git@example.com:user/repo''
     = Ok \<lparr>Scheme = ''ssh'', User = Some ''git'', Host = ''example.com'', Path = ''/user/repo''\<rparr>"
    using normalizeURI_scp[OF m1, of parse_plain] v1 by simp
  have b: "normalizeURI parse_plain ''git@localhost:repo''
     = Err (Errorf ''%q is not a valid import path'' [S ''localhost/repo''])"
    using normalizeURI_scp[OF m2, of parse_plain] v2 by simp
  from m1 a b show ?thesis by simp
qed

end
